theory Spec2Isabelle
  imports Complex_Main "HOL-Library.Word"
begin

unbundle bit_operations_syntax

section \<open>Logging\<close>

text \<open>
  The module logs through one global \<open>logger\<close>. A log call is modelled as a record
  appended to a list: the level and the message. Where the source formats an exception
  into the message (\<open>f"...: {e}"\<close>), the model keeps the text before the colon.
\<close>

datatype log_level = INFO | WARNING | ERROR

type_synonym log_record = "log_level \<times> string"

section \<open>The timeframe table\<close>

text \<open>\<open>TIMEFRAMES\<close>: the label and its width in minutes, in the order of the source.\<close>

definition TIMEFRAMES :: "(string \<times> int) list" where
  "TIMEFRAMES =
     [(''1m'', 1), (''5m'', 5), (''15m'', 15), (''30m'', 30), (''1h'', 60), (''4h'', 240),
      (''1d'', 1440), (''7d'', 10080), (''30d'', 43200)]"

section \<open>Aggregation into candles\<close>

text \<open>
  The dictionary that \<open>aggregate_to_timeframe\<close> builds for one bucket. Keys as in the
  source; \<open>"open"\<close> is the field \<open>open_price\<close>, since \<open>open\<close> is a constant of the
  library. Prices are Python floats that are only compared and copied, never computed
  with, so they are modelled as reals (NaN is outside the model). \<open>volume\<close> and
  \<open>count\<close> are Python ints.
\<close>

record candle =
  timestamp :: int
  open_price :: real
  high :: real
  low :: real
  close :: real
  volume :: int
  count :: int

text \<open>
  The local \<open>aggregated\<close> is a Python dict, which keeps its keys in insertion order:
  an association list with distinct keys, a new key going to the end.
  \<open>dict_modify k f d\<close> is an in-place update \<open>d[k][...] = ...\<close> of the value under an
  existing key.
\<close>

fun dict_modify :: "'k \<Rightarrow> ('v \<Rightarrow> 'v) \<Rightarrow> ('k \<times> 'v) list \<Rightarrow> ('k \<times> 'v) list" where
  "dict_modify k f [] = []"
| "dict_modify k f ((k', v) # d) = (if k' = k then (k', f v) # d else (k', v) # dict_modify k f d)"

text \<open>
  One iteration of the loop over \<open>prices\<close>. Python's \<open>//\<close> on ints is floor division,
  as \<open>div\<close> on \<open>int\<close> is. \<open>max(h, p)\<close> and \<open>min(l, p)\<close> on two non-NaN floats are the
  larger and the smaller value.
\<close>

definition aggregate_step :: "int \<Rightarrow> int \<times> real \<Rightarrow> (int \<times> candle) list \<Rightarrow> (int \<times> candle) list" where
  "aggregate_step timeframe_seconds = (\<lambda>(ts, price) aggregated.
     (let bucket = (ts div timeframe_seconds) * timeframe_seconds;
          aggregated' =
            (if map_of aggregated bucket = None
             then aggregated @
                    [(bucket, \<lparr>timestamp = bucket, open_price = price, high = price, low = price,
                               close = price, volume = 0, count = 0\<rparr>)]
             else dict_modify bucket
                    (\<lambda>c. c\<lparr>high := max (high c) price, low := min (low c) price, close := price\<rparr>)
                    aggregated)
      in dict_modify bucket (\<lambda>c. c\<lparr>count := count c + 1\<rparr>) aggregated'))"

text \<open>
  \<open>TimeframeDataHandler.aggregate_to_timeframe\<close>: the candles returned and the log
  records emitted. \<open>sorted\<close> is stable, as \<open>sort_key\<close> is.
\<close>

definition aggregate_to_timeframe :: "(int \<times> real) list \<Rightarrow> string \<Rightarrow> candle list \<times> log_record list" where
  "aggregate_to_timeframe prices timeframe =
     (case map_of TIMEFRAMES timeframe of
        None \<Rightarrow> ([], [(ERROR, ''Invalid timeframe: '' @ timeframe)])
      | Some timeframe_minutes \<Rightarrow>
          (let timeframe_seconds = timeframe_minutes * 60;
               aggregated = fold (aggregate_step timeframe_seconds) prices []
           in (sort_key timestamp (map snd aggregated), [])))"

section \<open>MD5, as \<open>hashlib.md5\<close> computes it\<close>

text \<open>
  \<open>DataCache._get_cache_path\<close> names a cache file by
  \<open>hashlib.md5(key.encode()).hexdigest()\<close>. The digest is the one of RFC 1321: four
  auxiliary functions, a left rotation, four rounds of sixteen operations
  \<open>a = b + ((a + f(b,c,d) + X[k] + T[i]) <<< s)\<close>, each round given as its table of
  \<open>(k, s, T[i])\<close>. Bytes are naturals below 256. A key is the byte string of its UTF-8
  encoding.
\<close>

type_synonym md5_state = "32 word \<times> 32 word \<times> 32 word \<times> 32 word"

definition md5_F :: "32 word \<Rightarrow> 32 word \<Rightarrow> 32 word \<Rightarrow> 32 word" where
  "md5_F x y z = (x AND y) OR (NOT x AND z)"

definition md5_G :: "32 word \<Rightarrow> 32 word \<Rightarrow> 32 word \<Rightarrow> 32 word" where
  "md5_G x y z = (x AND z) OR (y AND NOT z)"

definition md5_H :: "32 word \<Rightarrow> 32 word \<Rightarrow> 32 word \<Rightarrow> 32 word" where
  "md5_H x y z = x XOR y XOR z"

definition md5_I :: "32 word \<Rightarrow> 32 word \<Rightarrow> 32 word \<Rightarrow> 32 word" where
  "md5_I x y z = y XOR (x OR NOT z)"

definition rotate_left :: "32 word \<Rightarrow> nat \<Rightarrow> 32 word" where
  "rotate_left x n = push_bit n x OR drop_bit (32 - n) x"

definition md5_round1 :: "(nat \<times> nat \<times> 32 word) list" where
  "md5_round1 =
     [(0, 7, 0xd76aa478), (1, 12, 0xe8c7b756), (2, 17, 0x242070db), (3, 22, 0xc1bdceee),
      (4, 7, 0xf57c0faf), (5, 12, 0x4787c62a), (6, 17, 0xa8304613), (7, 22, 0xfd469501),
      (8, 7, 0x698098d8), (9, 12, 0x8b44f7af), (10, 17, 0xffff5bb1), (11, 22, 0x895cd7be),
      (12, 7, 0x6b901122), (13, 12, 0xfd987193), (14, 17, 0xa679438e), (15, 22, 0x49b40821)]"

definition md5_round2 :: "(nat \<times> nat \<times> 32 word) list" where
  "md5_round2 =
     [(1, 5, 0xf61e2562), (6, 9, 0xc040b340), (11, 14, 0x265e5a51), (0, 20, 0xe9b6c7aa),
      (5, 5, 0xd62f105d), (10, 9, 0x02441453), (15, 14, 0xd8a1e681), (4, 20, 0xe7d3fbc8),
      (9, 5, 0x21e1cde6), (14, 9, 0xc33707d6), (3, 14, 0xf4d50d87), (8, 20, 0x455a14ed),
      (13, 5, 0xa9e3e905), (2, 9, 0xfcefa3f8), (7, 14, 0x676f02d9), (12, 20, 0x8d2a4c8a)]"

definition md5_round3 :: "(nat \<times> nat \<times> 32 word) list" where
  "md5_round3 =
     [(5, 4, 0xfffa3942), (8, 11, 0x8771f681), (11, 16, 0x6d9d6122), (14, 23, 0xfde5380c),
      (1, 4, 0xa4beea44), (4, 11, 0x4bdecfa9), (7, 16, 0xf6bb4b60), (10, 23, 0xbebfbc70),
      (13, 4, 0x289b7ec6), (0, 11, 0xeaa127fa), (3, 16, 0xd4ef3085), (6, 23, 0x04881d05),
      (9, 4, 0xd9d4d039), (12, 11, 0xe6db99e5), (15, 16, 0x1fa27cf8), (2, 23, 0xc4ac5665)]"

definition md5_round4 :: "(nat \<times> nat \<times> 32 word) list" where
  "md5_round4 =
     [(0, 6, 0xf4292244), (7, 10, 0x432aff97), (14, 15, 0xab9423a7), (5, 21, 0xfc93a039),
      (12, 6, 0x655b59c3), (3, 10, 0x8f0ccc92), (10, 15, 0xffeff47d), (1, 21, 0x85845dd1),
      (8, 6, 0x6fa87e4f), (15, 10, 0xfe2ce6e0), (6, 15, 0xa3014314), (13, 21, 0x4e0811a1),
      (4, 6, 0xf7537e82), (11, 10, 0xbd3af235), (2, 15, 0x2ad7d2bb), (9, 21, 0xeb86d391)]"

definition md5_op ::
  "(32 word \<Rightarrow> 32 word \<Rightarrow> 32 word \<Rightarrow> 32 word) \<Rightarrow> 32 word list \<Rightarrow> nat \<times> nat \<times> 32 word \<Rightarrow> md5_state \<Rightarrow> md5_state" where
  "md5_op f X e st =
     (case e of (k, s, t) \<Rightarrow>
        (case st of (a, b, c, d) \<Rightarrow>
           (d, b + rotate_left (a + f b c d + X ! k + t) s, b, c)))"

fun md5_decode :: "nat list \<Rightarrow> 32 word list" where
  "md5_decode (b0 # b1 # b2 # b3 # bs) =
     of_nat (b0 + 256 * (b1 + 256 * (b2 + 256 * b3))) # md5_decode bs"
| "md5_decode _ = []"

definition md5_encode :: "32 word \<Rightarrow> nat list" where
  "md5_encode w =
     [unat w mod 256, unat w div 256 mod 256, unat w div 65536 mod 256, unat w div 16777216 mod 256]"

definition md5_transform :: "md5_state \<Rightarrow> nat list \<Rightarrow> md5_state" where
  "md5_transform st block =
     (let X = md5_decode block;
          st1 = fold (md5_op md5_F X) md5_round1 st;
          st2 = fold (md5_op md5_G X) md5_round2 st1;
          st3 = fold (md5_op md5_H X) md5_round3 st2;
          st4 = fold (md5_op md5_I X) md5_round4 st3
      in (case st of (a, b, c, d) \<Rightarrow>
            (case st4 of (a', b', c', d') \<Rightarrow> (a + a', b + b', c + c', d + d'))))"

definition md5_pad :: "nat list \<Rightarrow> nat list" where
  "md5_pad bs =
     bs @ [128] @ replicate ((119 - length bs mod 64) mod 64) 0
        @ map (\<lambda>i. (8 * length bs) div 256 ^ i mod 256) [0, 1, 2, 3, 4, 5, 6, 7]"

fun md5_blocks :: "nat list \<Rightarrow> nat list list" where
  "md5_blocks bs = (if bs = [] then [] else take 64 bs # md5_blocks (drop 64 bs))"

declare md5_blocks.simps [simp del]

definition md5_init :: md5_state where
  "md5_init = (0x67452301, 0xefcdab89, 0x98badcfe, 0x10325476)"

definition md5_digest :: "nat list \<Rightarrow> nat list" where
  "md5_digest bs =
     (let p = md5_pad bs in
      case fold (\<lambda>block st. md5_transform st block) (md5_blocks p) md5_init of
        (a, b, c, d) \<Rightarrow> md5_encode a @ md5_encode b @ md5_encode c @ md5_encode d)"

definition hex_digit :: "nat \<Rightarrow> char" where
  "hex_digit n = ''0123456789abcdef'' ! n"

definition hexdigest :: "nat list \<Rightarrow> string" where
  "hexdigest ds = concat (map (\<lambda>b. [hex_digit (b div 16), hex_digit (b mod 16)]) ds)"

definition md5_hexdigest :: "string \<Rightarrow> string" where
  "md5_hexdigest key = hexdigest (md5_digest (map of_char key))"


section \<open>Data that crosses the cache and the network\<close>

text \<open>
  A decoded JSON value. A JSON object is a dict, read with \<open>.get(key, default)\<close>; the
  association list is read by \<open>map_of\<close>.
\<close>

datatype json = JNull | JBool bool | JNum real | JStr string | JArr "json list"
  | JObj "(string \<times> json) list"

definition dict_get :: "(string \<times> json) list \<Rightarrow> string \<Rightarrow> json \<Rightarrow> json" where
  "dict_get d key dflt = (case map_of d key of None \<Rightarrow> dflt | Some v \<Rightarrow> v)"

text \<open>
  Exceptions that leave a function of the module. \<open>AttributeError\<close>: \<open>.get\<close> on a value
  that is no dict. \<open>TimestampError\<close>: \<open>datetime.fromtimestamp\<close> refusing a
  timestamp (its \<open>OverflowError\<close>, \<open>OSError\<close> or \<open>ValueError\<close>).
\<close>

datatype exn = AttributeError | TimestampError

fun json_get :: "json \<Rightarrow> string \<Rightarrow> json \<Rightarrow> exn + json" where
  "json_get (JObj d) key dflt = Inr (dict_get d key dflt)"
| "json_get _ key dflt = Inl AttributeError"

text \<open>
  The candle that \<open>_process_historical_to_ohlcv\<close> builds for one point: keys
  \<open>"timestamp"\<close> (an ISO string), \<open>"open"\<close>, \<open>"high"\<close>, \<open>"low"\<close>, \<open>"close"\<close>,
  \<open>"volume"\<close>.
\<close>

record point_candle =
  iso_timestamp :: string
  open_p :: real
  high_p :: real
  low_p :: real
  close_p :: real
  volume_p :: real

text \<open>
  The result dicts of the module, which are also what the cache stores:
  \<^item> \<open>Snapshot source timestamp data\<close> is \<open>{"source", "timestamp", "data"}\<close>;
  \<^item> \<open>Historical source timestamp days prices market_caps volumes\<close> is the result of
    \<open>get_historical_data\<close>, each series a list of \<open>[timestampMillis, value]\<close> pairs;
  \<^item> \<open>Ohlcv source timeframe timestamp ohlcv\<close> is the result of \<open>get_ohlcv_data\<close>.
  Each is a non-empty dict, so \<open>if cached:\<close> and \<open>if data:\<close> hold exactly when the value
  is not \<open>None\<close>. JSON serialisation is the identity on these values.
\<close>

datatype payload =
    Snapshot string string json
  | Historical string string int "(int \<times> real) list" "(int \<times> real) list" "(int \<times> real) list"
  | Ohlcv string string string "point_candle list"


text \<open>
  What a cache file holds: \<open>Entry timestamp data\<close> is a JSON object with its optional
  keys \<open>"timestamp"\<close> and \<open>"data"\<close>; \<open>Malformed\<close> is any content on which the \<open>try\<close>
  block of \<open>DataCache.get\<close> raises (no JSON, no object, a timestamp that is no number).
\<close>

datatype cache_file = Malformed | Entry "real option" "payload option"

text \<open>An HTTP request: the URL and the query parameters.\<close>

datatype request = Request string "(string \<times> string) list"

text \<open>
  The decoded body of the market-chart endpoint: the keys \<open>"prices"\<close>,
  \<open>"market_caps"\<close> and \<open>"volumes"\<close>, each present or absent.
\<close>

record chart_body =
  body_prices :: "(int \<times> real) list option"
  body_market_caps :: "(int \<times> real) list option"
  body_volumes :: "(int \<times> real) list option"

section \<open>The world the module runs in\<close>

text \<open>
  Everything outside the module that its functions read or change:
  \<^item> \<open>files\<close>: the cache directory, file name to content;
  \<^item> \<open>io_fault\<close>: the files on which \<open>open\<close> raises an \<open>OSError\<close>;
  \<^item> \<open>now\<close>: \<open>time.time()\<close>, in seconds, as an exact real;
  \<^item> \<open>utcnow\<close>: \<open>datetime.utcnow().isoformat()\<close>;
  \<^item> \<open>local_isoformat ms\<close>: \<open>datetime.fromtimestamp(ms / 1000).isoformat()\<close>, \<open>None\<close> when
    it raises;
  \<^item> \<open>upstream_json\<close>, \<open>upstream_chart\<close>: what a provider answers to a request, the
    decoded body, \<open>None\<close> when \<open>session.get\<close>, \<open>raise_for_status\<close> or \<open>json\<close> raise a
    \<open>RequestException\<close>;
  \<^item> \<open>sent\<close>: the requests sent so far;
  \<^item> \<open>logged\<close>: the log records so far.
\<close>

record world =
  files :: "string \<rightharpoonup> cache_file"
  io_fault :: "string \<Rightarrow> bool"
  now :: real
  utcnow :: string
  local_isoformat :: "int \<Rightarrow> string option"
  upstream_json :: "request \<Rightarrow> (string \<times> json) list option"
  upstream_chart :: "request \<Rightarrow> chart_body option"
  sent :: "request list"
  logged :: "log_record list"

definition emit :: "log_level \<Rightarrow> string \<Rightarrow> world \<Rightarrow> world" where
  "emit level msg w = w\<lparr>logged := logged w @ [(level, msg)]\<rparr>"

definition session_get_json :: "world \<Rightarrow> request \<Rightarrow> (string \<times> json) list option \<times> world" where
  "session_get_json w req = (upstream_json w req, w\<lparr>sent := sent w @ [req]\<rparr>)"

definition session_get_chart :: "world \<Rightarrow> request \<Rightarrow> chart_body option \<times> world" where
  "session_get_chart w req = (upstream_chart w req, w\<lparr>sent := sent w @ [req]\<rparr>)"

section \<open>The cache\<close>

definition CACHE_EXPIRY_MINUTES :: real where
  "CACHE_EXPIRY_MINUTES = 5"

text \<open>\<open>DataCache._get_cache_path\<close>: the file name inside the cache directory.\<close>

definition get_cache_path :: "string \<Rightarrow> string" where
  "get_cache_path key = md5_hexdigest key @ ''.json''"

text \<open>\<open>DataCache.get\<close>: the value returned and the world after the call.\<close>

definition DataCache_get :: "world \<Rightarrow> string \<Rightarrow> payload option \<times> world" where
  "DataCache_get w key =
     (let cache_path = get_cache_path key in
      case files w cache_path of
        None \<Rightarrow> (None, w)
      | Some content \<Rightarrow>
          if io_fault w cache_path then (None, emit WARNING ''Error reading cache'' w)
          else
            (case content of
               Malformed \<Rightarrow> (None, emit WARNING ''Error reading cache'' w)
             | Entry ts data \<Rightarrow>
                 (let timestamp = (case ts of None \<Rightarrow> 0 | Some t \<Rightarrow> t);
                      age_minutes = (now w - timestamp) / 60
                  in if age_minutes < CACHE_EXPIRY_MINUTES
                     then (data, emit INFO (''Cache hit for key: '' @ key) w)
                     else (None, emit INFO (''Cache expired for key: '' @ key) w))))"

text \<open>\<open>DataCache.set\<close>: the world after the call.\<close>

definition DataCache_set :: "world \<Rightarrow> string \<Rightarrow> payload \<Rightarrow> world" where
  "DataCache_set w key data =
     (let cache_path = get_cache_path key in
      if io_fault w cache_path then emit WARNING ''Error writing cache'' w
      else
        (let cache_data = Entry (Some (now w)) (Some data)
         in emit INFO (''Cached data for key: '' @ key)
              (w\<lparr>files := (files w)(cache_path \<mapsto> cache_data)\<rparr>)))"

section \<open>The adapters\<close>

text \<open>\<open>str\<close> of a Python int, for the f-strings and the query parameters.\<close>

definition digit_char :: "nat \<Rightarrow> char" where
  "digit_char n = ''0123456789'' ! n"

fun str_nat :: "nat \<Rightarrow> string" where
  "str_nat n = (if n < 10 then [digit_char n] else str_nat (n div 10) @ [digit_char (n mod 10)])"

declare str_nat.simps [simp del]

definition str_int :: "int \<Rightarrow> string" where
  "str_int i = (if i < 0 then CHR ''-'' # str_nat (nat (- i)) else str_nat (nat i))"

definition COINGECKO_BASE_URL :: string where
  "COINGECKO_BASE_URL = ''https://api.coingecko.com/api/v3''"

definition COINMARKETCAP_BASE_URL :: string where
  "COINMARKETCAP_BASE_URL = ''https://pro-api.coinmarketcap.com/v1''"

text \<open>\<open>CoinGeckoFetcher.get_current_price\<close>.\<close>

definition CoinGeckoFetcher_get_current_price :: "world \<Rightarrow> payload option \<times> world" where
  "CoinGeckoFetcher_get_current_price w =
     (let cache_key = ''coingecko_current_price'';
          (cached, w1) = DataCache_get w cache_key
      in case cached of
           Some c \<Rightarrow> (Some c, w1)
         | None \<Rightarrow>
             (let url = COINGECKO_BASE_URL @ ''/simple/price'';
                  params = [(''ids'', ''bitcoin''), (''vs_currencies'', ''usd,eur,gbp''),
                            (''include_market_cap'', ''true''), (''include_24hr_vol'', ''true''),
                            (''include_24hr_change'', ''true'')];
                  (response, w2) = session_get_json w1 (Request url params)
              in case response of
                   None \<Rightarrow> (None, emit ERROR ''Error fetching from CoinGecko'' w2)
                 | Some data \<Rightarrow>
                     (let result = Snapshot ''coingecko'' (utcnow w2) (dict_get data ''bitcoin'' (JObj []));
                          w3 = DataCache_set w2 cache_key result
                      in (Some result,
                          emit INFO ''Successfully fetched current price from CoinGecko'' w3))))"

text \<open>\<open>CoinGeckoFetcher.get_market_data\<close>.\<close>

definition CoinGeckoFetcher_get_market_data :: "world \<Rightarrow> payload option \<times> world" where
  "CoinGeckoFetcher_get_market_data w =
     (let cache_key = ''coingecko_market_data'';
          (cached, w1) = DataCache_get w cache_key
      in case cached of
           Some c \<Rightarrow> (Some c, w1)
         | None \<Rightarrow>
             (let url = COINGECKO_BASE_URL @ ''/coins/bitcoin'';
                  params = [(''localization'', ''false''), (''tickers'', ''false''),
                            (''market_data'', ''true''), (''community_data'', ''false''),
                            (''developer_data'', ''false'')];
                  (response, w2) = session_get_json w1 (Request url params)
              in case response of
                   None \<Rightarrow> (None, emit ERROR ''Error fetching market data from CoinGecko'' w2)
                 | Some data \<Rightarrow>
                     (let result = Snapshot ''coingecko'' (utcnow w2)
                            (JObj [(''id'', dict_get data ''id'' JNull),
                                   (''symbol'', dict_get data ''symbol'' JNull),
                                   (''name'', dict_get data ''name'' JNull),
                                   (''market_data'', dict_get data ''market_data'' (JObj []))]);
                          w3 = DataCache_set w2 cache_key result
                      in (Some result,
                          emit INFO ''Successfully fetched market data from CoinGecko'' w3))))"

text \<open>
  \<open>CoinGeckoFetcher.get_historical_data\<close>. The local \<open>days\<close> after
  \<open>days = min(days, 365)\<close> is \<open>days'\<close>.
\<close>

definition CoinGeckoFetcher_get_historical_data :: "world \<Rightarrow> int \<Rightarrow> payload option \<times> world" where
  "CoinGeckoFetcher_get_historical_data w days =
     (let days' = min days 365;
          cache_key = ''coingecko_historical_'' @ str_int days' @ ''d'';
          (cached, w1) = DataCache_get w cache_key
      in case cached of
           Some c \<Rightarrow> (Some c, w1)
         | None \<Rightarrow>
             (let url = COINGECKO_BASE_URL @ ''/coins/bitcoin/market_chart'';
                  params = [(''vs_currency'', ''usd''), (''days'', str_int days'),
                            (''interval'', ''daily'')];
                  (response, w2) = session_get_chart w1 (Request url params)
              in case response of
                   None \<Rightarrow> (None, emit ERROR ''Error fetching historical data from CoinGecko'' w2)
                 | Some data \<Rightarrow>
                     (let result = Historical ''coingecko'' (utcnow w2) days'
                            (case body_prices data of None \<Rightarrow> [] | Some s \<Rightarrow> s)
                            (case body_market_caps data of None \<Rightarrow> [] | Some s \<Rightarrow> s)
                            (case body_volumes data of None \<Rightarrow> [] | Some s \<Rightarrow> s);
                          w3 = DataCache_set w2 cache_key result
                      in (Some result,
                          emit INFO (''Successfully fetched '' @ str_int days' @
                                     '' days of historical data from CoinGecko'') w3))))"

text \<open>
  \<open>CoinMarketCapFetcher.get_current_price\<close>. The second \<open>.get\<close> of
  \<open>data.get("data", {}).get("BTC", {})\<close> raises an \<open>AttributeError\<close>, which the
  \<open>except RequestException\<close> does not catch, when \<open>"data"\<close> holds no dict.
\<close>

definition CoinMarketCapFetcher_get_current_price :: "world \<Rightarrow> (exn + payload option) \<times> world" where
  "CoinMarketCapFetcher_get_current_price w =
     (let cache_key = ''coinmarketcap_current_price'';
          (cached, w1) = DataCache_get w cache_key
      in case cached of
           Some c \<Rightarrow> (Inr (Some c), w1)
         | None \<Rightarrow>
             (let url = COINMARKETCAP_BASE_URL @ ''/cryptocurrency/quotes/latest'';
                  params = [(''symbol'', ''BTC''), (''convert'', ''USD,EUR,GBP'')];
                  (response, w2) = session_get_json w1 (Request url params)
              in case response of
                   None \<Rightarrow> (Inr None, emit ERROR ''Error fetching from CoinMarketCap'' w2)
                 | Some data \<Rightarrow>
                     (case json_get (dict_get data ''data'' (JObj [])) ''BTC'' (JObj []) of
                        Inl e \<Rightarrow> (Inl e, w2)
                      | Inr btc \<Rightarrow>
                          (let result = Snapshot ''coinmarketcap'' (utcnow w2) btc;
                               w3 = DataCache_set w2 cache_key result
                           in (Inr (Some result),
                               emit INFO ''Successfully fetched current price from CoinMarketCap'' w3)))))"

text \<open>\<open>CoinMarketCapFetcher.get_cryptocurrency_info\<close>.\<close>

definition CoinMarketCapFetcher_get_cryptocurrency_info :: "world \<Rightarrow> (exn + payload option) \<times> world" where
  "CoinMarketCapFetcher_get_cryptocurrency_info w =
     (let cache_key = ''coinmarketcap_info'';
          (cached, w1) = DataCache_get w cache_key
      in case cached of
           Some c \<Rightarrow> (Inr (Some c), w1)
         | None \<Rightarrow>
             (let url = COINMARKETCAP_BASE_URL @ ''/cryptocurrency/info'';
                  params = [(''symbol'', ''BTC'')];
                  (response, w2) = session_get_json w1 (Request url params)
              in case response of
                   None \<Rightarrow> (Inr None, emit ERROR ''Error fetching info from CoinMarketCap'' w2)
                 | Some data \<Rightarrow>
                     (case json_get (dict_get data ''data'' (JObj [])) ''BTC'' (JObj []) of
                        Inl e \<Rightarrow> (Inl e, w2)
                      | Inr btc \<Rightarrow>
                          (let result = Snapshot ''coinmarketcap'' (utcnow w2) btc;
                               w3 = DataCache_set w2 cache_key result
                           in (Inr (Some result),
                               emit INFO ''Successfully fetched info from CoinMarketCap'' w3)))))"

section \<open>The timeframe handler\<close>

text \<open>
  The loop of \<open>_process_historical_to_ohlcv\<close> over \<open>enumerate(prices)\<close>, from index
  \<open>i\<close> on. \<open>fmt\<close> is \<open>local_isoformat\<close> of the world. An exception leaves the function
  with no list.
\<close>

fun process_points ::
  "(int \<Rightarrow> string option) \<Rightarrow> (int \<times> real) list \<Rightarrow> nat \<Rightarrow> (int \<times> real) list \<Rightarrow> exn + point_candle list" where
  "process_points fmt volumes i [] = Inr []"
| "process_points fmt volumes i ((ts, price) # rest) =
     (let volume = (if i < length volumes then snd (volumes ! i) else 0)
      in case fmt ts of
           None \<Rightarrow> Inl TimestampError
         | Some stamp \<Rightarrow>
             (case process_points fmt volumes (Suc i) rest of
                Inl e \<Rightarrow> Inl e
              | Inr ohlcv \<Rightarrow>
                  Inr (\<lparr>iso_timestamp = stamp, open_p = price, high_p = price, low_p = price,
                        close_p = price, volume_p = volume\<rparr> # ohlcv)))"

text \<open>
  \<open>TimeframeDataHandler._process_historical_to_ohlcv\<close>. The argument is the dict
  \<open>data\<close>, seen through its series-valued keys.
\<close>

definition process_historical_to_ohlcv ::
  "(int \<Rightarrow> string option) \<Rightarrow> (string \<rightharpoonup> (int \<times> real) list) \<Rightarrow> exn + point_candle list" where
  "process_historical_to_ohlcv fmt data =
     (let prices = (case data ''prices'' of None \<Rightarrow> [] | Some s \<Rightarrow> s);
          volumes = (case data ''volumes'' of None \<Rightarrow> [] | Some s \<Rightarrow> s)
      in process_points fmt volumes 0 prices)"


section \<open>The facade\<close>

text \<open>\<open>DataFetcher.get_bitcoin_price\<close>.\<close>

definition DataFetcher_get_bitcoin_price :: "world \<Rightarrow> string \<Rightarrow> (exn + payload option) \<times> world" where
  "DataFetcher_get_bitcoin_price w source =
     (if source = ''coingecko''
      then (let (r, w') = CoinGeckoFetcher_get_current_price w in (Inr r, w'))
      else if source = ''coinmarketcap'' then CoinMarketCapFetcher_get_current_price w
      else (Inr None, emit ERROR (''Unknown source: '' @ source) w))"

text \<open>\<open>DataFetcher.get_market_data\<close>.\<close>

definition DataFetcher_get_market_data :: "world \<Rightarrow> string \<Rightarrow> (exn + payload option) \<times> world" where
  "DataFetcher_get_market_data w source =
     (if source = ''coingecko''
      then (let (r, w') = CoinGeckoFetcher_get_market_data w in (Inr r, w'))
      else if source = ''coinmarketcap'' then CoinMarketCapFetcher_get_cryptocurrency_info w
      else (Inr None, emit ERROR (''Unknown source: '' @ source) w))"

text \<open>\<open>DataFetcher.get_historical_data\<close>.\<close>

definition DataFetcher_get_historical_data :: "world \<Rightarrow> int \<Rightarrow> string \<Rightarrow> payload option \<times> world" where
  "DataFetcher_get_historical_data w days source =
     (if source = ''coingecko'' then CoinGeckoFetcher_get_historical_data w days
      else (None, emit ERROR (''Historical data not available for source: '' @ source) w))"



section \<open>Vocabulary of the proofs and example inputs\<close>

text \<open>The points of \<open>ps\<close> that fall into the bucket \<open>b\<close> of width \<open>w\<close>, in input order.\<close>

definition bucket_points :: "int \<Rightarrow> int \<Rightarrow> (int \<times> real) list \<Rightarrow> (int \<times> real) list" where
  "bucket_points w b ps = filter (\<lambda>(ts, price). (ts div w) * w = b) ps"

text \<open>The candle that summarises a non-empty list of points of one bucket.\<close>

definition candle_of :: "int \<Rightarrow> (int \<times> real) list \<Rightarrow> candle" where
  "candle_of b B =
     \<lparr>timestamp = b, open_price = snd (hd B), high = Max (snd ` set B), low = Min (snd ` set B),
      close = snd (last B), volume = 0, count = int (length B)\<rparr>"

text \<open>
  The loop invariant of \<open>aggregate_to_timeframe\<close>: after the points \<open>qs\<close>, the dict holds
  one entry per bucket met, the candle of the points of that bucket.
\<close>

definition agg_inv :: "int \<Rightarrow> (int \<times> real) list \<Rightarrow> (int \<times> candle) list \<Rightarrow> bool" where
  "agg_inv w qs agg \<longleftrightarrow>
     distinct (map fst agg) \<and>
     (\<forall>b. map_of agg b =
            (if bucket_points w b qs = [] then None
             else Some (candle_of b (bucket_points w b qs))))"

text \<open>
  A world for the examples: an empty cache directory, no I/O fault, both providers
  unreachable, every timestamp rendered.
\<close>

definition offline_world :: world where
  "offline_world =
     \<lparr>files = Map.empty, io_fault = (\<lambda>p. False), now = 0, utcnow = ''1970-01-01T00:00:00'',
      local_isoformat = (\<lambda>ms. Some (str_int ms)), upstream_json = (\<lambda>r. None),
      upstream_chart = (\<lambda>r. None), sent = [], logged = []\<rparr>"

definition example_payload :: payload where
  "example_payload = Snapshot ''coingecko'' ''1970-01-01T00:00:00'' (JObj [])"

text \<open>
  A conversion to local time that fails from the year 10000 on, as
  \<open>datetime.fromtimestamp\<close> does on a machine on UTC (\<open>ValueError\<close>: year 10000 is out
  of range); 253402300800000 is the first millisecond of that year. Below it the stamp is
  left abstract, as in \<open>offline_world\<close>.
\<close>

definition bounded_isoformat :: "int \<Rightarrow> string option" where
  "bounded_isoformat ms = (if ms < 253402300800000 then Some (str_int ms) else None)"



text \<open>Two keys of 72 ASCII characters that differ in their 22nd character.\<close>

definition collision_key_A :: string where
  "collision_key_A = ''TEXTCOLLBYfGiJUETHQ4hAcKSMd5zYpgqf1YRDhkmxHkhPWptrkoyz28wnI9V0aHeAuaKnak''"

definition collision_key_B :: string where
  "collision_key_B = ''TEXTCOLLBYfGiJUETHQ4hEcKSMd5zYpgqf1YRDhkmxHkhPWptrkoyz28wnI9V0aHeAuaKnak''"

section \<open>Aggregation: the worked example\<close>

text \<open>
  C1. For the label \<open>1h\<close> and the points \<open>[(0,100),(1800,110),(3600,90)]\<close> the result is
  exactly two candles: bucket 0 with open 100, high 110, low 100, close 110 and count 2,
  and bucket 3600 with open, high, low and close 90 and count 1. Nothing is logged.
\<close>

theorem aggregate_example_1h:
  "aggregate_to_timeframe [(0, 100), (1800, 110), (3600, 90)] ''1h'' =
     ([\<lparr>timestamp = 0, open_price = 100, high = 110, low = 100, close = 110, volume = 0, count = 2\<rparr>,
       \<lparr>timestamp = 3600, open_price = 90, high = 90, low = 90, close = 90, volume = 0, count = 1\<rparr>],
      [])"
  by (simp add: aggregate_to_timeframe_def TIMEFRAMES_def aggregate_step_def Let_def)

section \<open>Aggregation: the loop invariant\<close>

lemma map_fst_dict_modify: "map fst (dict_modify k f d) = map fst d"
  by (induction d) auto

lemma map_of_dict_modify:
  "map_of (dict_modify k f d) = (map_of d)(k := map_option f (map_of d k))"
  by (induction d) (auto simp: fun_eq_iff)

lemma candle_of_snoc:
  "B \<noteq> [] \<Longrightarrow> candle_of b (B @ [(t, p)]) =
     (candle_of b B)\<lparr>high := max (high (candle_of b B)) p, low := min (low (candle_of b B)) p,
        close := p, count := count (candle_of b B) + 1\<rparr>"
  by (simp add: candle_of_def max.commute min.commute)

lemma agg_inv_step:
  assumes "agg_inv w qs agg"
  shows "agg_inv w (qs @ [q]) (aggregate_step w q agg)"
proof -
  obtain t p where q: "q = (t, p)" by (cases q)
  define b where "b = (t div w) * w"
  have d: "distinct (map fst agg)" and
    m: "\<And>b'. map_of agg b' = (if bucket_points w b' qs = [] then None else Some (candle_of b' (bucket_points w b' qs)))"
    using assms by (auto simp: agg_inv_def)
  have bp: "\<And>b'. bucket_points w b' (qs @ [(t, p)]) = (if b' = b then bucket_points w b' qs @ [(t, p)] else bucket_points w b' qs)"
    by (auto simp: bucket_points_def b_def)
  show ?thesis
  proof (cases "bucket_points w b qs = []")
    case True
    then have none: "map_of agg b = None" using m by simp
    then have nin: "b \<notin> fst ` set agg" by (simp add: map_of_eq_None_iff)
    have step: "aggregate_step w q agg = dict_modify b (\<lambda>c. c\<lparr>count := count c + 1\<rparr>)
        (agg @ [(b, \<lparr>timestamp = b, open_price = p, high = p, low = p, close = p, volume = 0, count = 0\<rparr>)])"
      using none by (simp add: aggregate_step_def q b_def Let_def)
    show ?thesis
      unfolding agg_inv_def step
      using d nin True
      by (auto simp: map_fst_dict_modify map_of_dict_modify m bp candle_of_def q none map_add_def)
  next
    case False
    then have some: "map_of agg b = Some (candle_of b (bucket_points w b qs))" using m by simp
    have step: "aggregate_step w q agg = dict_modify b (\<lambda>c. c\<lparr>count := count c + 1\<rparr>)
        (dict_modify b (\<lambda>c. c\<lparr>high := max (high c) p, low := min (low c) p, close := p\<rparr>) agg)"
      using some by (simp add: aggregate_step_def q b_def Let_def)
    show ?thesis
      unfolding agg_inv_def step
      using d False
      by (auto simp: map_fst_dict_modify map_of_dict_modify m bp some q candle_of_snoc)
  qed
qed

lemma agg_inv_fold: "agg_inv w qs (fold (aggregate_step w) qs [])"
proof (induction qs rule: rev_induct)
  case Nil
  show ?case by (simp add: agg_inv_def bucket_points_def)
next
  case (snoc q qs)
  then show ?case by (simp add: agg_inv_step)
qed


lemma distinct_map_sort_key: "distinct (map f (sort_key g xs)) = distinct (map f xs)"
  by (simp add: distinct_map)

lemma agg_entries:
  assumes "agg_inv w qs agg"
  shows "(b, c) \<in> set agg \<longleftrightarrow> bucket_points w b qs \<noteq> [] \<and> c = candle_of b (bucket_points w b qs)"
proof -
  have d: "distinct (map fst agg)" using assms by (simp add: agg_inv_def)
  have m: "map_of agg b = (if bucket_points w b qs = [] then None else Some (candle_of b (bucket_points w b qs)))"
    using assms by (simp add: agg_inv_def)
  have "(b, c) \<in> set agg \<longleftrightarrow> map_of agg b = Some c"
    using d by simp
  then show ?thesis unfolding m by auto
qed

lemma agg_map_timestamp:
  assumes "agg_inv w qs agg"
  shows "map timestamp (map snd agg) = map fst agg"
proof -
  have "\<forall>e \<in> set agg. timestamp (snd e) = fst e"
  proof
    fix e assume "e \<in> set agg"
    then have "(fst e, snd e) \<in> set agg" by simp
    then show "timestamp (snd e) = fst e"
      using agg_entries[OF assms, of "fst e" "snd e"] by (simp add: candle_of_def)
  qed
  then show ?thesis by (induction agg) auto
qed

lemma bucket_points_nonempty:
  "bucket_points w b qs \<noteq> [] \<longleftrightarrow> b \<in> (\<lambda>(ts, price). (ts div w) * w) ` set qs"
  by (auto simp: bucket_points_def filter_empty_conv)

lemma agg_keys:
  assumes "agg_inv w qs agg"
  shows "fst ` set agg = (\<lambda>(ts, price). (ts div w) * w) ` set qs"
proof -
  have "b \<in> fst ` set agg \<longleftrightarrow> bucket_points w b qs \<noteq> []" for b
  proof -
    have "b \<in> fst ` set agg \<longleftrightarrow> (\<exists>c. (b, c) \<in> set agg)" by force
    then show ?thesis using agg_entries[OF assms] by simp
  qed
  then show ?thesis by (auto simp: bucket_points_nonempty)
qed

lemma aggregate_valid:
  assumes "map_of TIMEFRAMES timeframe = Some timeframe_minutes"
  shows "fst (aggregate_to_timeframe prices timeframe) =
           sort_key timestamp (map snd (fold (aggregate_step (timeframe_minutes * 60)) prices []))"
  using assms by (simp add: aggregate_to_timeframe_def Let_def)

section \<open>Aggregation: what every candle holds\<close>

text \<open>
  C2. For a label of the table, of width \<open>w\<close> seconds: the candles are exactly the buckets
  \<open>(ts div w) * w\<close> of the points, one candle per bucket; and in the candle of a bucket,
  with \<open>B\<close> the points of that bucket in input order, open is the price of the first
  point of \<open>B\<close>, close the price of the last, high the maximum and low the minimum of
  the prices of \<open>B\<close>, and count the number of points of \<open>B\<close>.
\<close>

theorem aggregate_buckets:
  assumes "map_of TIMEFRAMES timeframe = Some timeframe_minutes"
  shows "let w = timeframe_minutes * 60; candles = fst (aggregate_to_timeframe prices timeframe) in
     timestamp ` set candles = (\<lambda>(ts, price). (ts div w) * w) ` set prices \<and>
     distinct (map timestamp candles) \<and>
     (\<forall>c \<in> set candles.
        let B = filter (\<lambda>(ts, price). (ts div w) * w = timestamp c) prices in
          B \<noteq> [] \<and> open_price c = snd (hd B) \<and> close c = snd (last B) \<and>
          high c = Max (snd ` set B) \<and> low c = Min (snd ` set B) \<and> count c = int (length B))"
proof -
  define w where "w = timeframe_minutes * 60"
  define agg where "agg = fold (aggregate_step w) prices []"
  have inv: "agg_inv w prices agg" unfolding agg_def by (rule agg_inv_fold)
  have cs: "fst (aggregate_to_timeframe prices timeframe) = sort_key timestamp (map snd agg)"
    using aggregate_valid[OF assms] by (simp add: agg_def w_def)
  have ts: "map timestamp (map snd agg) = map fst agg" by (rule agg_map_timestamp[OF inv])
  have d: "distinct (map fst agg)" using inv by (simp add: agg_inv_def)
  have 1: "timestamp ` set (sort_key timestamp (map snd agg)) = (\<lambda>(ts, price). (ts div w) * w) ` set prices"
  proof -
    have "timestamp ` set (sort_key timestamp (map snd agg)) = set (map timestamp (map snd agg))"
      by (simp add: image_image)
    also have "\<dots> = fst ` set agg" by (simp only: ts set_map)
    finally show ?thesis by (simp add: agg_keys[OF inv])
  qed
  have 2: "distinct (map timestamp (sort_key timestamp (map snd agg)))"
  proof -
    have "distinct (map timestamp (map snd agg))" using d by (simp only: ts)
    then show ?thesis by (simp only: distinct_map_sort_key)
  qed
  have 3: "B \<noteq> [] \<and> open_price c = snd (hd B) \<and> close c = snd (last B) \<and>
          high c = Max (snd ` set B) \<and> low c = Min (snd ` set B) \<and> count c = int (length B)"
    if c: "c \<in> set (sort_key timestamp (map snd agg))"
      and B: "B = filter (\<lambda>(ts, price). (ts div w) * w = timestamp c) prices" for c B
  proof -
    from c obtain b where bc: "(b, c) \<in> set agg" by auto
    then have ne: "bucket_points w b prices \<noteq> []" and ceq: "c = candle_of b (bucket_points w b prices)"
      using agg_entries[OF inv, of b c] by simp_all
    have "timestamp c = b" using ceq by (simp add: candle_of_def)
    then have "B = bucket_points w b prices" using B by (simp add: bucket_points_def)
    then show ?thesis using ne ceq by (simp add: candle_of_def)
  qed
  show ?thesis
    unfolding Let_def cs w_def[symmetric]
    using 1 2 3 by blast
qed

theorem aggregate_buckets_witness:
  "map_of TIMEFRAMES ''1h'' = Some 60 \<and>
   timestamp ` set (fst (aggregate_to_timeframe [(0, 100), (1800, 110), (3600, 90)] ''1h'')) = {0, 3600} \<and>
   distinct (map timestamp (fst (aggregate_to_timeframe [(0, 100), (1800, 110), (3600, 90)] ''1h'')))"
proof -
  have h: "map_of TIMEFRAMES ''1h'' = Some 60" by (simp add: TIMEFRAMES_def)
  show ?thesis
    using h aggregate_buckets[OF h, of "[(0, 100), (1800, 110), (3600, 90)]"]
    by (simp add: Let_def)
qed

section \<open>Aggregation: the order of the candles\<close>

text \<open>
  C3. Whatever the order of the points, the candles come in strictly ascending order of
  \<open>timestamp\<close> (the bucket start), and for a label of the table their timestamps are
  exactly the buckets of the points: one candle per distinct bucket. For a label outside
  the table there is no candle.
\<close>

theorem aggregate_sorted:
  "sorted_wrt (<) (map timestamp (fst (aggregate_to_timeframe prices timeframe))) \<and>
   (case map_of TIMEFRAMES timeframe of
      None \<Rightarrow> fst (aggregate_to_timeframe prices timeframe) = []
    | Some timeframe_minutes \<Rightarrow>
        set (map timestamp (fst (aggregate_to_timeframe prices timeframe))) =
          (\<lambda>(ts, price). (ts div (timeframe_minutes * 60)) * (timeframe_minutes * 60)) ` set prices)"
proof (cases "map_of TIMEFRAMES timeframe")
  case None
  then show ?thesis by (simp add: aggregate_to_timeframe_def)
next
  case (Some m)
  define agg where "agg = fold (aggregate_step (m * 60)) prices []"
  have inv: "agg_inv (m * 60) prices agg" unfolding agg_def by (rule agg_inv_fold)
  have cs: "fst (aggregate_to_timeframe prices timeframe) = sort_key timestamp (map snd agg)"
    using aggregate_valid[OF Some] by (simp add: agg_def)
  have ts: "map timestamp (map snd agg) = map fst agg" by (rule agg_map_timestamp[OF inv])
  have d: "distinct (map timestamp (map snd agg))" using inv by (simp only: ts agg_inv_def)
  have "sorted (map timestamp (sort_key timestamp (map snd agg)))" by (rule sorted_sort_key)
  moreover have "distinct (map timestamp (sort_key timestamp (map snd agg)))"
    using d by (simp only: distinct_map_sort_key)
  ultimately have s: "sorted_wrt (<) (map timestamp (sort_key timestamp (map snd agg)))"
    by (simp add: strict_sorted_iff)
  have "set (map timestamp (sort_key timestamp (map snd agg))) = set (map timestamp (map snd agg))"
    by (simp add: image_image)
  also have "\<dots> = fst ` set agg" by (simp only: ts set_map)
  finally have k: "set (map timestamp (sort_key timestamp (map snd agg))) =
      (\<lambda>(ts, price). (ts div (m * 60)) * (m * 60)) ` set prices"
    by (simp add: agg_keys[OF inv])
  show ?thesis using s k by (simp only: Some cs option.case)
qed

section \<open>Aggregation: the volume\<close>

text \<open>
  C4. Every candle of \<open>aggregate_to_timeframe\<close> has volume 0, whatever the points and
  the label.
\<close>

theorem aggregate_volume_zero:
  "\<forall>c \<in> set (fst (aggregate_to_timeframe prices timeframe)). volume c = 0"
proof (cases "map_of TIMEFRAMES timeframe")
  case None
  then show ?thesis by (simp add: aggregate_to_timeframe_def)
next
  case (Some m)
  define agg where "agg = fold (aggregate_step (m * 60)) prices []"
  have inv: "agg_inv (m * 60) prices agg" unfolding agg_def by (rule agg_inv_fold)
  have cs: "fst (aggregate_to_timeframe prices timeframe) = sort_key timestamp (map snd agg)"
    using aggregate_valid[OF Some] by (simp add: agg_def)
  show ?thesis
  proof
    fix c assume "c \<in> set (fst (aggregate_to_timeframe prices timeframe))"
    then obtain b where "(b, c) \<in> set agg" unfolding cs by auto
    then show "volume c = 0" using agg_entries[OF inv, of b c] by (simp add: candle_of_def)
  qed
qed

theorem aggregate_volume_zero_witness:
  "volume (hd (fst (aggregate_to_timeframe [(0, 100), (1800, 110)] ''1h''))) = 0 \<and>
   high (hd (fst (aggregate_to_timeframe [(0, 100), (1800, 110)] ''1h''))) = 110 \<and>
   count (hd (fst (aggregate_to_timeframe [(0, 100), (1800, 110)] ''1h''))) = 2"
  using aggregate_volume_zero[of "[(0, 100), (1800, 110)]" "''1h''"]
  by (simp add: aggregate_to_timeframe_def TIMEFRAMES_def aggregate_step_def Let_def)

section \<open>Invalid selectors\<close>

text \<open>
  C5. An invalid selector raises nothing. For a label that is not in \<open>TIMEFRAMES\<close>,
  \<open>aggregate_to_timeframe\<close> returns the empty list and logs one error; for a source that is
  neither \<open>coingecko\<close> nor \<open>coinmarketcap\<close>, \<open>get_bitcoin_price\<close> and
  \<open>get_market_data\<close> return \<open>None\<close> as a value (\<open>Inr\<close>, no exception) and log one
  error; nothing else of the world changes.
\<close>

theorem invalid_selectors_yield_no_data:
  "(map_of TIMEFRAMES timeframe = None \<longrightarrow>
      aggregate_to_timeframe prices timeframe =
        ([], [(ERROR, ''Invalid timeframe: '' @ timeframe)])) \<and>
   (source \<noteq> ''coingecko'' \<and> source \<noteq> ''coinmarketcap'' \<longrightarrow>
      DataFetcher_get_bitcoin_price w source =
        (Inr None, emit ERROR (''Unknown source: '' @ source) w) \<and>
      DataFetcher_get_market_data w source =
        (Inr None, emit ERROR (''Unknown source: '' @ source) w))"
  by (simp add: aggregate_to_timeframe_def DataFetcher_get_bitcoin_price_def
      DataFetcher_get_market_data_def)

theorem invalid_selectors_yield_no_data_witness:
  "map_of TIMEFRAMES ''2h'' = None \<and>
   aggregate_to_timeframe [(0, 100)] ''2h'' = ([], [(ERROR, ''Invalid timeframe: 2h'')]) \<and>
   fst (DataFetcher_get_bitcoin_price offline_world ''kraken'') = Inr None \<and>
   logged (snd (DataFetcher_get_bitcoin_price offline_world ''kraken'')) =
     [(ERROR, ''Unknown source: kraken'')] \<and>
   fst (DataFetcher_get_market_data offline_world ''kraken'') = Inr None \<and>
   logged (snd (DataFetcher_get_market_data offline_world ''kraken'')) =
     [(ERROR, ''Unknown source: kraken'')]"
proof -
  have h: "map_of TIMEFRAMES ''2h'' = None" by (simp add: TIMEFRAMES_def)
  show ?thesis
    using h invalid_selectors_yield_no_data[of "''2h''" "[(0, 100)]" "''kraken''" offline_world]
    by (simp add: emit_def offline_world_def)
qed

section \<open>One candle per point\<close>

lemma process_points_ok:
  assumes "\<forall>p \<in> set prices. fmt (fst p) \<noteq> None"
  shows "process_points fmt volumes i prices =
     Inr (map (\<lambda>(j, ts, price).
            \<lparr>iso_timestamp = the (fmt ts), open_p = price, high_p = price, low_p = price,
             close_p = price, volume_p = (if j < length volumes then snd (volumes ! j) else 0)\<rparr>)
          (enumerate i prices))"
  using assms
proof (induction prices arbitrary: i)
  case Nil
  show ?case by simp
next
  case (Cons p prices)
  obtain ts price where p: "p = (ts, price)" by (cases p)
  from Cons.prems obtain stamp where f: "fmt ts = Some stamp" by (auto simp: p)
  have rest: "\<forall>p \<in> set prices. fmt (fst p) \<noteq> None" using Cons.prems by simp
  show ?case
    by (simp add: p f Cons.IH[OF rest] Let_def)
qed

lemma process_points_raises:
  assumes "\<exists>p \<in> set prices. fmt (fst p) = None"
  shows "process_points fmt volumes i prices = Inl TimestampError"
  using assms
proof (induction prices arbitrary: i)
  case Nil
  then show ?case by simp
next
  case (Cons p prices)
  obtain ts price where p: "p = (ts, price)" by (cases p)
  show ?case
  proof (cases "fmt ts")
    case None
    then show ?thesis by (simp add: p)
  next
    case (Some stamp)
    with Cons.prems have "\<exists>p \<in> set prices. fmt (fst p) = None" by (auto simp: p)
    from Cons.IH[OF this] show ?thesis by (simp add: p Some)
  qed
qed

lemma process_historical_raises:
  assumes "data ''prices'' = Some prices" and "\<exists>p \<in> set prices. fmt (fst p) = None"
  shows "process_historical_to_ohlcv fmt data = Inl TimestampError"
  using assms by (simp add: process_historical_to_ohlcv_def process_points_raises)

text \<open>
  C6. \<open>_process_historical_to_ohlcv\<close> does not return a candle for every point
  \<open>(t, 50000)\<close>: the conversion of the timestamp to local time raises for a time beyond the
  year 9999 and nothing in the function catches it. For the single point
  \<open>(253402300800000, 50000)\<close> with no volume series the function raises and returns no
  candle.
\<close>

theorem process_historical_counterexample:
  "bounded_isoformat 253402300800000 = None \<and>
   process_historical_to_ohlcv bounded_isoformat [''prices'' \<mapsto> [(253402300800000, 50000)]] =
     Inl TimestampError"
  by (simp add: process_historical_to_ohlcv_def bounded_isoformat_def)

text \<open>
  C6, for a price series all of whose timestamps can be converted to local time:
  \<open>_process_historical_to_ohlcv\<close> returns one candle per point of the series, in the order
  of the series, with open, high, low and close the price of the point and the volume of
  the entry of the volume series at the same index, 0 when there is none. A single such
  point \<open>(t, 50000)\<close> with no volume series gives the single candle with the four prices
  50000 and volume 0.
\<close>

theorem process_historical_one_candle_per_point:
  assumes "\<forall>p \<in> set prices. fmt (fst p) \<noteq> None"
    and "prices = (case data ''prices'' of None \<Rightarrow> [] | Some s \<Rightarrow> s)"
    and "volumes = (case data ''volumes'' of None \<Rightarrow> [] | Some s \<Rightarrow> s)"
  shows "\<exists>ohlcv. process_historical_to_ohlcv fmt data = Inr ohlcv \<and>
     length ohlcv = length prices \<and>
     (\<forall>i < length prices.
        iso_timestamp (ohlcv ! i) = the (fmt (fst (prices ! i))) \<and>
        open_p (ohlcv ! i) = snd (prices ! i) \<and>
        high_p (ohlcv ! i) = snd (prices ! i) \<and>
        low_p (ohlcv ! i) = snd (prices ! i) \<and>
        close_p (ohlcv ! i) = snd (prices ! i) \<and>
        volume_p (ohlcv ! i) = (if i < length volumes then snd (volumes ! i) else 0)) \<and>
     (\<forall>t. prices = [(t, 50000)] \<and> data ''volumes'' = None \<longrightarrow>
        ohlcv = [\<lparr>iso_timestamp = the (fmt t), open_p = 50000, high_p = 50000, low_p = 50000,
                  close_p = 50000, volume_p = 0\<rparr>])"
proof -
  define ohlcv where "ohlcv = map (\<lambda>(j, ts, price).
            \<lparr>iso_timestamp = the (fmt ts), open_p = price, high_p = price, low_p = price,
             close_p = price, volume_p = (if j < length volumes then snd (volumes ! j) else 0)\<rparr>)
          (enumerate 0 prices)"
  have r: "process_historical_to_ohlcv fmt data = Inr ohlcv"
    unfolding process_historical_to_ohlcv_def Let_def ohlcv_def
    using process_points_ok[OF assms(1), of volumes 0] assms(2,3) by simp
  have l: "length ohlcv = length prices" by (simp add: ohlcv_def)
  have n: "ohlcv ! i = \<lparr>iso_timestamp = the (fmt (fst (prices ! i))), open_p = snd (prices ! i),
        high_p = snd (prices ! i), low_p = snd (prices ! i), close_p = snd (prices ! i),
        volume_p = (if i < length volumes then snd (volumes ! i) else 0)\<rparr>"
    if "i < length prices" for i
    using that by (simp add: ohlcv_def nth_enumerate_eq case_prod_unfold)
  have s: "ohlcv = [\<lparr>iso_timestamp = the (fmt t), open_p = 50000, high_p = 50000, low_p = 50000,
                  close_p = 50000, volume_p = 0\<rparr>]"
    if "prices = [(t, 50000)]" and "data ''volumes'' = None" for t
    using that assms(3) by (simp add: ohlcv_def enumerate_simps)
  show ?thesis
    using r l n s by (intro exI[of _ ohlcv]) simp
qed

theorem process_historical_one_candle_per_point_witness:
  "process_historical_to_ohlcv (\<lambda>ms. Some (str_int ms)) [''prices'' \<mapsto> [(0, 50000)]] =
     Inr [\<lparr>iso_timestamp = ''0'', open_p = 50000, high_p = 50000, low_p = 50000,
           close_p = 50000, volume_p = 0\<rparr>]"
proof -
  have a: "\<forall>p \<in> set [(0::int, 50000::real)]. (\<lambda>ms. Some (str_int ms)) (fst p) \<noteq> None"
    by simp
  have b: "[(0::int, 50000::real)] = (case [''prices'' \<mapsto> [(0::int, 50000::real)]] ''prices'' of
              None \<Rightarrow> [] | Some s \<Rightarrow> s)" by simp
  have c: "[] = (case [''prices'' \<mapsto> [(0::int, 50000::real)]] ''volumes'' of
              None \<Rightarrow> [] | Some s \<Rightarrow> s)" by simp
  from process_historical_one_candle_per_point[OF a b c]
  obtain ohlcv where
    r: "process_historical_to_ohlcv (\<lambda>ms. Some (str_int ms)) [''prices'' \<mapsto> [(0, 50000)]] = Inr ohlcv"
    and s: "\<forall>t. [(0::int, 50000::real)] = [(t, 50000)] \<and>
                [''prices'' \<mapsto> [(0::int, 50000::real)]] ''volumes'' = None \<longrightarrow>
              ohlcv = [\<lparr>iso_timestamp = the (Some (str_int t)), open_p = 50000, high_p = 50000,
                        low_p = 50000, close_p = 50000, volume_p = 0\<rparr>]"
    by blast
  have z: "str_int 0 = ''0''" by (simp add: str_int_def str_nat.simps digit_char_def)
  have "ohlcv = [\<lparr>iso_timestamp = ''0'', open_p = 50000, high_p = 50000,
                   low_p = 50000, close_p = 50000, volume_p = 0\<rparr>]"
    using s z by simp
  then show ?thesis using r by (simp only:)
qed

section \<open>The cache\<close>

lemma files_emit [simp]: "files (emit level msg w) = files w"
  by (simp add: emit_def)

lemma io_fault_emit [simp]: "io_fault (emit level msg w) = io_fault w"
  by (simp add: emit_def)

lemma now_emit [simp]: "now (emit level msg w) = now w"
  by (simp add: emit_def)

lemma files_DataCache_set:
  "files (DataCache_set w key data) =
     (if io_fault w (get_cache_path key) then files w
      else (files w)(get_cache_path key \<mapsto> Entry (Some (now w)) (Some data)))"
  by (simp add: DataCache_set_def Let_def)

lemma io_fault_DataCache_set [simp]: "io_fault (DataCache_set w key data) = io_fault w"
  by (simp add: DataCache_set_def Let_def)

lemma now_DataCache_set [simp]: "now (DataCache_set w key data) = now w"
  by (simp add: DataCache_set_def Let_def)

text \<open>The value that \<open>DataCache.get\<close> returns depends on the file, the fault and the clock only.\<close>

lemma fst_DataCache_get:
  "fst (DataCache_get w key) =
     (case files w (get_cache_path key) of
        None \<Rightarrow> None
      | Some Malformed \<Rightarrow> None
      | Some (Entry ts data) \<Rightarrow>
          if \<not> io_fault w (get_cache_path key) \<and>
             (now w - (case ts of None \<Rightarrow> 0 | Some t \<Rightarrow> t)) / 60 < CACHE_EXPIRY_MINUTES
          then data else None)"
  by (simp add: DataCache_get_def Let_def split: option.split cache_file.split)

text \<open>
  C7. After \<open>set k v\<close> at time \<open>T\<close>, a \<open>get k\<close> at time \<open>T + \<Delta>\<close> returns \<open>v\<close> when
  \<open>\<Delta>\<close> is less than the expiry window and \<open>None\<close> when it is not; the window is 5
  minutes, 300 seconds. The file of the key is assumed to be writable and readable; the clock
  is a real number of seconds.
\<close>

theorem cache_round_trip_expiry:
  assumes "\<not> io_fault w (get_cache_path k)"
  shows "fst (DataCache_get ((DataCache_set (w\<lparr>now := T\<rparr>) k v)\<lparr>now := T + \<Delta>\<rparr>) k) =
           (if \<Delta> < 60 * CACHE_EXPIRY_MINUTES then Some v else None) \<and>
         60 * CACHE_EXPIRY_MINUTES = 300"
  using assms
  by (simp add: fst_DataCache_get files_DataCache_set CACHE_EXPIRY_MINUTES_def)

theorem cache_round_trip_expiry_witness:
  "fst (DataCache_get ((DataCache_set (offline_world\<lparr>now := 1000\<rparr>) ''coingecko_current_price''
          example_payload)\<lparr>now := 1000 + 299\<rparr>) ''coingecko_current_price'') = Some example_payload \<and>
   fst (DataCache_get ((DataCache_set (offline_world\<lparr>now := 1000\<rparr>) ''coingecko_current_price''
          example_payload)\<lparr>now := 1000 + 300\<rparr>) ''coingecko_current_price'') = None"
proof -
  have h: "\<not> io_fault offline_world (get_cache_path ''coingecko_current_price'')"
    by (simp add: offline_world_def)
  show ?thesis
    using cache_round_trip_expiry[OF h, where T = 1000 and v = example_payload and \<Delta> = 299]
      cache_round_trip_expiry[OF h, where T = 1000 and v = example_payload and \<Delta> = 300]
    by (simp add: CACHE_EXPIRY_MINUTES_def)
qed

section \<open>MD5 on concrete keys\<close>

text \<open>
  The digest is evaluated in steps: the padded message, its blocks, the words of a block,
  each of the four rounds, the block's transformation, the digest.
\<close>

lemma replicate_numeral: "replicate (numeral v) x = x # replicate (pred_numeral v) x"
  by (simp add: numeral_eq_Suc)

lemma md5_pad_A:
  "md5_pad (map of_char collision_key_A) =
    [84, 69, 88, 84, 67, 79, 76, 76, 66, 89, 102, 71, 105, 74, 85, 69,
     84, 72, 81, 52, 104, 65, 99, 75, 83, 77, 100, 53, 122, 89, 112, 103,
     113, 102, 49, 89, 82, 68, 104, 107, 109, 120, 72, 107, 104, 80, 87, 112,
     116, 114, 107, 111, 121, 122, 50, 56, 119, 110, 73, 57, 86, 48, 97, 72,
     101, 65, 117, 97, 75, 110, 97, 107, 128, 0, 0, 0, 0, 0, 0, 0,
     0, 0, 0, 0, 0, 0, 0, 0, 0, 0, 0, 0, 0, 0, 0, 0,
     0, 0, 0, 0, 0, 0, 0, 0, 0, 0, 0, 0, 0, 0, 0, 0,
     0, 0, 0, 0, 0, 0, 0, 0, 64, 2, 0, 0, 0, 0, 0, 0]"
  by (simp add: md5_pad_def collision_key_A_def replicate_numeral)

lemma md5_blocks_A:
  "md5_blocks
    [84, 69, 88, 84, 67, 79, 76, 76, 66, 89, 102, 71, 105, 74, 85, 69,
     84, 72, 81, 52, 104, 65, 99, 75, 83, 77, 100, 53, 122, 89, 112, 103,
     113, 102, 49, 89, 82, 68, 104, 107, 109, 120, 72, 107, 104, 80, 87, 112,
     116, 114, 107, 111, 121, 122, 50, 56, 119, 110, 73, 57, 86, 48, 97, 72,
     101, 65, 117, 97, 75, 110, 97, 107, 128, 0, 0, 0, 0, 0, 0, 0,
     0, 0, 0, 0, 0, 0, 0, 0, 0, 0, 0, 0, 0, 0, 0, 0,
     0, 0, 0, 0, 0, 0, 0, 0, 0, 0, 0, 0, 0, 0, 0, 0,
     0, 0, 0, 0, 0, 0, 0, 0, 64, 2, 0, 0, 0, 0, 0, 0] =
   [[84, 69, 88, 84, 67, 79, 76, 76, 66, 89, 102, 71, 105, 74, 85, 69,
     84, 72, 81, 52, 104, 65, 99, 75, 83, 77, 100, 53, 122, 89, 112, 103,
     113, 102, 49, 89, 82, 68, 104, 107, 109, 120, 72, 107, 104, 80, 87, 112,
     116, 114, 107, 111, 121, 122, 50, 56, 119, 110, 73, 57, 86, 48, 97, 72],
    [101, 65, 117, 97, 75, 110, 97, 107, 128, 0, 0, 0, 0, 0, 0, 0,
     0, 0, 0, 0, 0, 0, 0, 0, 0, 0, 0, 0, 0, 0, 0, 0,
     0, 0, 0, 0, 0, 0, 0, 0, 0, 0, 0, 0, 0, 0, 0, 0,
     0, 0, 0, 0, 0, 0, 0, 0, 64, 2, 0, 0, 0, 0, 0, 0]]"
  by (simp add: md5_blocks.simps)

lemma md5_decode_A1:
  "md5_decode
    [84, 69, 88, 84, 67, 79, 76, 76, 66, 89, 102, 71, 105, 74, 85, 69,
     84, 72, 81, 52, 104, 65, 99, 75, 83, 77, 100, 53, 122, 89, 112, 103,
     113, 102, 49, 89, 82, 68, 104, 107, 109, 120, 72, 107, 104, 80, 87, 112,
     116, 114, 107, 111, 121, 122, 50, 56, 119, 110, 73, 57, 86, 48, 97, 72] =
   [1415071060, 1280069443, 1197889858, 1163217513, 877742164, 1264796008, 895765843, 1735416186,
    1496409713, 1801995346, 1799911533, 1884770408, 1869312628, 942832249, 961113719, 1214328918]"
  by simp

lemma md5_round1_A1:
  "fold (md5_op md5_F
     [1415071060, 1280069443, 1197889858, 1163217513, 877742164, 1264796008, 895765843, 1735416186,
     1496409713, 1801995346, 1799911533, 1884770408, 1869312628, 942832249, 961113719, 1214328918])
     md5_round1 (1732584193, 4023233417, 2562383102, 271733878) =
   (4205716656, 2072393527, 3878364225, 2298387597)"
  by (simp add: md5_op_def md5_F_def md5_round1_def rotate_left_def)

lemma md5_round2_A1:
  "fold (md5_op md5_G
     [1415071060, 1280069443, 1197889858, 1163217513, 877742164, 1264796008, 895765843, 1735416186,
     1496409713, 1801995346, 1799911533, 1884770408, 1869312628, 942832249, 961113719, 1214328918])
     md5_round2 (4205716656, 2072393527, 3878364225, 2298387597) =
   (3331794094, 2007385661, 4162421965, 2031996124)"
  by (simp add: md5_op_def md5_G_def md5_round2_def rotate_left_def)

lemma md5_round3_A1:
  "fold (md5_op md5_H
     [1415071060, 1280069443, 1197889858, 1163217513, 877742164, 1264796008, 895765843, 1735416186,
     1496409713, 1801995346, 1799911533, 1884770408, 1869312628, 942832249, 961113719, 1214328918])
     md5_round3 (3331794094, 2007385661, 4162421965, 2031996124) =
   (1669367554, 2840004908, 3919165654, 1342570473)"
  by (simp add: md5_op_def md5_H_def md5_round3_def rotate_left_def)

lemma md5_round4_A1:
  "fold (md5_op md5_I
     [1415071060, 1280069443, 1197889858, 1163217513, 877742164, 1264796008, 895765843, 1735416186,
     1496409713, 1801995346, 1799911533, 1884770408, 1869312628, 942832249, 961113719, 1214328918])
     md5_round4 (1669367554, 2840004908, 3919165654, 1342570473) =
   (2062130403, 2925335713, 45111915, 3173465611)"
  by (simp add: md5_op_def md5_I_def md5_round4_def rotate_left_def)

lemma md5_transform_A1:
  "md5_transform (1732584193, 4023233417, 2562383102, 271733878)
    [84, 69, 88, 84, 67, 79, 76, 76, 66, 89, 102, 71, 105, 74, 85, 69,
     84, 72, 81, 52, 104, 65, 99, 75, 83, 77, 100, 53, 122, 89, 112, 103,
     113, 102, 49, 89, 82, 68, 104, 107, 109, 120, 72, 107, 104, 80, 87, 112,
     116, 114, 107, 111, 121, 122, 50, 56, 119, 110, 73, 57, 86, 48, 97, 72] =
   (3794714596, 2653601834, 2607495017, 3445199489)"
  unfolding md5_transform_def md5_decode_A1 Let_def
  by (simp add: md5_round1_A1 md5_round2_A1 md5_round3_A1 md5_round4_A1)

lemma md5_decode_A2:
  "md5_decode
    [101, 65, 117, 97, 75, 110, 97, 107, 128, 0, 0, 0, 0, 0, 0, 0,
     0, 0, 0, 0, 0, 0, 0, 0, 0, 0, 0, 0, 0, 0, 0, 0,
     0, 0, 0, 0, 0, 0, 0, 0, 0, 0, 0, 0, 0, 0, 0, 0,
     0, 0, 0, 0, 0, 0, 0, 0, 64, 2, 0, 0, 0, 0, 0, 0] =
   [1635074405, 1801547339, 128, 0, 0, 0, 0, 0,
    0, 0, 0, 0, 0, 0, 576, 0]"
  by simp

lemma md5_round1_A2:
  "fold (md5_op md5_F
     [1635074405, 1801547339, 128, 0, 0, 0, 0, 0,
     0, 0, 0, 0, 0, 0, 576, 0])
     md5_round1 (3794714596, 2653601834, 2607495017, 3445199489) =
   (3559571843, 2501301673, 3331964849, 3601571161)"
  by (simp add: md5_op_def md5_F_def md5_round1_def rotate_left_def)

lemma md5_round2_A2:
  "fold (md5_op md5_G
     [1635074405, 1801547339, 128, 0, 0, 0, 0, 0,
     0, 0, 0, 0, 0, 0, 576, 0])
     md5_round2 (3559571843, 2501301673, 3331964849, 3601571161) =
   (3598795142, 1983263341, 3997540728, 2994268747)"
  by (simp add: md5_op_def md5_G_def md5_round2_def rotate_left_def)

lemma md5_round3_A2:
  "fold (md5_op md5_H
     [1635074405, 1801547339, 128, 0, 0, 0, 0, 0,
     0, 0, 0, 0, 0, 0, 576, 0])
     md5_round3 (3598795142, 1983263341, 3997540728, 2994268747) =
   (3347343850, 2320984145, 3450301385, 3968142795)"
  by (simp add: md5_op_def md5_H_def md5_round3_def rotate_left_def)

lemma md5_round4_A2:
  "fold (md5_op md5_I
     [1635074405, 1801547339, 128, 0, 0, 0, 0, 0,
     0, 0, 0, 0, 0, 0, 576, 0])
     md5_round4 (3347343850, 2320984145, 3450301385, 3968142795) =
   (2753228310, 1584256068, 2374623662, 2611537949)"
  by (simp add: md5_op_def md5_I_def md5_round4_def rotate_left_def)

lemma md5_transform_A2:
  "md5_transform (3794714596, 2653601834, 2607495017, 3445199489)
    [101, 65, 117, 97, 75, 110, 97, 107, 128, 0, 0, 0, 0, 0, 0, 0,
     0, 0, 0, 0, 0, 0, 0, 0, 0, 0, 0, 0, 0, 0, 0, 0,
     0, 0, 0, 0, 0, 0, 0, 0, 0, 0, 0, 0, 0, 0, 0, 0,
     0, 0, 0, 0, 0, 0, 0, 0, 64, 2, 0, 0, 0, 0, 0, 0] =
   (2252975610, 4237857902, 687151383, 1761770142)"
  unfolding md5_transform_def md5_decode_A2 Let_def
  by (simp add: md5_round1_A2 md5_round2_A2 md5_round3_A2 md5_round4_A2)

lemma md5_digest_A:
  "md5_digest (map of_char collision_key_A) =
    [250, 173, 73, 134, 110, 148, 152, 252, 23, 25, 245, 40, 158, 122, 2, 105]"
  unfolding md5_digest_def Let_def md5_pad_A md5_blocks_A
  by (simp add: md5_init_def md5_transform_A1 md5_transform_A2 md5_encode_def)

lemma md5_pad_B:
  "md5_pad (map of_char collision_key_B) =
    [84, 69, 88, 84, 67, 79, 76, 76, 66, 89, 102, 71, 105, 74, 85, 69,
     84, 72, 81, 52, 104, 69, 99, 75, 83, 77, 100, 53, 122, 89, 112, 103,
     113, 102, 49, 89, 82, 68, 104, 107, 109, 120, 72, 107, 104, 80, 87, 112,
     116, 114, 107, 111, 121, 122, 50, 56, 119, 110, 73, 57, 86, 48, 97, 72,
     101, 65, 117, 97, 75, 110, 97, 107, 128, 0, 0, 0, 0, 0, 0, 0,
     0, 0, 0, 0, 0, 0, 0, 0, 0, 0, 0, 0, 0, 0, 0, 0,
     0, 0, 0, 0, 0, 0, 0, 0, 0, 0, 0, 0, 0, 0, 0, 0,
     0, 0, 0, 0, 0, 0, 0, 0, 64, 2, 0, 0, 0, 0, 0, 0]"
  by (simp add: md5_pad_def collision_key_B_def replicate_numeral)

lemma md5_blocks_B:
  "md5_blocks
    [84, 69, 88, 84, 67, 79, 76, 76, 66, 89, 102, 71, 105, 74, 85, 69,
     84, 72, 81, 52, 104, 69, 99, 75, 83, 77, 100, 53, 122, 89, 112, 103,
     113, 102, 49, 89, 82, 68, 104, 107, 109, 120, 72, 107, 104, 80, 87, 112,
     116, 114, 107, 111, 121, 122, 50, 56, 119, 110, 73, 57, 86, 48, 97, 72,
     101, 65, 117, 97, 75, 110, 97, 107, 128, 0, 0, 0, 0, 0, 0, 0,
     0, 0, 0, 0, 0, 0, 0, 0, 0, 0, 0, 0, 0, 0, 0, 0,
     0, 0, 0, 0, 0, 0, 0, 0, 0, 0, 0, 0, 0, 0, 0, 0,
     0, 0, 0, 0, 0, 0, 0, 0, 64, 2, 0, 0, 0, 0, 0, 0] =
   [[84, 69, 88, 84, 67, 79, 76, 76, 66, 89, 102, 71, 105, 74, 85, 69,
     84, 72, 81, 52, 104, 69, 99, 75, 83, 77, 100, 53, 122, 89, 112, 103,
     113, 102, 49, 89, 82, 68, 104, 107, 109, 120, 72, 107, 104, 80, 87, 112,
     116, 114, 107, 111, 121, 122, 50, 56, 119, 110, 73, 57, 86, 48, 97, 72],
    [101, 65, 117, 97, 75, 110, 97, 107, 128, 0, 0, 0, 0, 0, 0, 0,
     0, 0, 0, 0, 0, 0, 0, 0, 0, 0, 0, 0, 0, 0, 0, 0,
     0, 0, 0, 0, 0, 0, 0, 0, 0, 0, 0, 0, 0, 0, 0, 0,
     0, 0, 0, 0, 0, 0, 0, 0, 64, 2, 0, 0, 0, 0, 0, 0]]"
  by (simp add: md5_blocks.simps)

lemma md5_decode_B1:
  "md5_decode
    [84, 69, 88, 84, 67, 79, 76, 76, 66, 89, 102, 71, 105, 74, 85, 69,
     84, 72, 81, 52, 104, 69, 99, 75, 83, 77, 100, 53, 122, 89, 112, 103,
     113, 102, 49, 89, 82, 68, 104, 107, 109, 120, 72, 107, 104, 80, 87, 112,
     116, 114, 107, 111, 121, 122, 50, 56, 119, 110, 73, 57, 86, 48, 97, 72] =
   [1415071060, 1280069443, 1197889858, 1163217513, 877742164, 1264797032, 895765843, 1735416186,
    1496409713, 1801995346, 1799911533, 1884770408, 1869312628, 942832249, 961113719, 1214328918]"
  by simp

lemma md5_round1_B1:
  "fold (md5_op md5_F
     [1415071060, 1280069443, 1197889858, 1163217513, 877742164, 1264797032, 895765843, 1735416186,
     1496409713, 1801995346, 1799911533, 1884770408, 1869312628, 942832249, 961113719, 1214328918])
     md5_round1 (1732584193, 4023233417, 2562383102, 271733878) =
   (4272825526, 2068214583, 3949537855, 2365627607)"
  by (simp add: md5_op_def md5_F_def md5_round1_def rotate_left_def)

lemma md5_round2_B1:
  "fold (md5_op md5_G
     [1415071060, 1280069443, 1197889858, 1163217513, 877742164, 1264797032, 895765843, 1735416186,
     1496409713, 1801995346, 1799911533, 1884770408, 1869312628, 942832249, 961113719, 1214328918])
     md5_round2 (4272825526, 2068214583, 3949537855, 2365627607) =
   (3331793070, 2007385661, 4162421965, 2031996124)"
  by (simp add: md5_op_def md5_G_def md5_round2_def rotate_left_def)

lemma md5_round3_B1:
  "fold (md5_op md5_H
     [1415071060, 1280069443, 1197889858, 1163217513, 877742164, 1264797032, 895765843, 1735416186,
     1496409713, 1801995346, 1799911533, 1884770408, 1869312628, 942832249, 961113719, 1214328918])
     md5_round3 (3331793070, 2007385661, 4162421965, 2031996124) =
   (1669367554, 2840004908, 3919165654, 1342570473)"
  by (simp add: md5_op_def md5_H_def md5_round3_def rotate_left_def)

lemma md5_round4_B1:
  "fold (md5_op md5_I
     [1415071060, 1280069443, 1197889858, 1163217513, 877742164, 1264797032, 895765843, 1735416186,
     1496409713, 1801995346, 1799911533, 1884770408, 1869312628, 942832249, 961113719, 1214328918])
     md5_round4 (1669367554, 2840004908, 3919165654, 1342570473) =
   (4209614051, 777852065, 2192595563, 1025981963)"
  by (simp add: md5_op_def md5_I_def md5_round4_def rotate_left_def)

lemma md5_transform_B1:
  "md5_transform (1732584193, 4023233417, 2562383102, 271733878)
    [84, 69, 88, 84, 67, 79, 76, 76, 66, 89, 102, 71, 105, 74, 85, 69,
     84, 72, 81, 52, 104, 69, 99, 75, 83, 77, 100, 53, 122, 89, 112, 103,
     113, 102, 49, 89, 82, 68, 104, 107, 109, 120, 72, 107, 104, 80, 87, 112,
     116, 114, 107, 111, 121, 122, 50, 56, 119, 110, 73, 57, 86, 48, 97, 72] =
   (1647230948, 506118186, 460011369, 1297715841)"
  unfolding md5_transform_def md5_decode_B1 Let_def
  by (simp add: md5_round1_B1 md5_round2_B1 md5_round3_B1 md5_round4_B1)

lemma md5_decode_B2:
  "md5_decode
    [101, 65, 117, 97, 75, 110, 97, 107, 128, 0, 0, 0, 0, 0, 0, 0,
     0, 0, 0, 0, 0, 0, 0, 0, 0, 0, 0, 0, 0, 0, 0, 0,
     0, 0, 0, 0, 0, 0, 0, 0, 0, 0, 0, 0, 0, 0, 0, 0,
     0, 0, 0, 0, 0, 0, 0, 0, 64, 2, 0, 0, 0, 0, 0, 0] =
   [1635074405, 1801547339, 128, 0, 0, 0, 0, 0,
    0, 0, 0, 0, 0, 0, 576, 0]"
  by simp

lemma md5_round1_B2:
  "fold (md5_op md5_F
     [1635074405, 1801547339, 128, 0, 0, 0, 0, 0,
     0, 0, 0, 0, 0, 0, 576, 0])
     md5_round1 (1647230948, 506118186, 460011369, 1297715841) =
   (1412088195, 353818025, 1184481201, 1454087513)"
  by (simp add: md5_op_def md5_F_def md5_round1_def rotate_left_def)

lemma md5_round2_B2:
  "fold (md5_op md5_G
     [1635074405, 1801547339, 128, 0, 0, 0, 0, 0,
     0, 0, 0, 0, 0, 0, 576, 0])
     md5_round2 (1412088195, 353818025, 1184481201, 1454087513) =
   (1451311494, 4130746989, 1850057080, 846785099)"
  by (simp add: md5_op_def md5_G_def md5_round2_def rotate_left_def)

lemma md5_round3_B2:
  "fold (md5_op md5_H
     [1635074405, 1801547339, 128, 0, 0, 0, 0, 0,
     0, 0, 0, 0, 0, 0, 576, 0])
     md5_round3 (1451311494, 4130746989, 1850057080, 846785099) =
   (1199860202, 173500497, 1302817737, 1820659147)"
  by (simp add: md5_op_def md5_H_def md5_round3_def rotate_left_def)

lemma md5_round4_B2:
  "fold (md5_op md5_I
     [1635074405, 1801547339, 128, 0, 0, 0, 0, 0,
     0, 0, 0, 0, 0, 0, 576, 0])
     md5_round4 (1199860202, 173500497, 1302817737, 1820659147) =
   (605744662, 3731739716, 227140014, 464054301)"
  by (simp add: md5_op_def md5_I_def md5_round4_def rotate_left_def)

lemma md5_transform_B2:
  "md5_transform (1647230948, 506118186, 460011369, 1297715841)
    [101, 65, 117, 97, 75, 110, 97, 107, 128, 0, 0, 0, 0, 0, 0, 0,
     0, 0, 0, 0, 0, 0, 0, 0, 0, 0, 0, 0, 0, 0, 0, 0,
     0, 0, 0, 0, 0, 0, 0, 0, 0, 0, 0, 0, 0, 0, 0, 0,
     0, 0, 0, 0, 0, 0, 0, 0, 64, 2, 0, 0, 0, 0, 0, 0] =
   (2252975610, 4237857902, 687151383, 1761770142)"
  unfolding md5_transform_def md5_decode_B2 Let_def
  by (simp add: md5_round1_B2 md5_round2_B2 md5_round3_B2 md5_round4_B2)

lemma md5_digest_B:
  "md5_digest (map of_char collision_key_B) =
    [250, 173, 73, 134, 110, 148, 152, 252, 23, 25, 245, 40, 158, 122, 2, 105]"
  unfolding md5_digest_def Let_def md5_pad_B md5_blocks_B
  by (simp add: md5_init_def md5_transform_B1 md5_transform_B2 md5_encode_def)

lemma md5_collision: "md5_hexdigest collision_key_A = md5_hexdigest collision_key_B"
  by (simp only: md5_hexdigest_def md5_digest_A md5_digest_B)

lemma collision_keys_differ: "collision_key_A \<noteq> collision_key_B"
  by (simp add: collision_key_A_def collision_key_B_def)

lemma md5_pad_price:
  "md5_pad (map of_char ''coingecko_current_price'') =
    [99, 111, 105, 110, 103, 101, 99, 107, 111, 95, 99, 117, 114, 114, 101, 110,
     116, 95, 112, 114, 105, 99, 101, 128, 0, 0, 0, 0, 0, 0, 0, 0,
     0, 0, 0, 0, 0, 0, 0, 0, 0, 0, 0, 0, 0, 0, 0, 0,
     0, 0, 0, 0, 0, 0, 0, 0, 184, 0, 0, 0, 0, 0, 0, 0]"
  by (simp add: md5_pad_def replicate_numeral)

lemma md5_blocks_price:
  "md5_blocks
    [99, 111, 105, 110, 103, 101, 99, 107, 111, 95, 99, 117, 114, 114, 101, 110,
     116, 95, 112, 114, 105, 99, 101, 128, 0, 0, 0, 0, 0, 0, 0, 0,
     0, 0, 0, 0, 0, 0, 0, 0, 0, 0, 0, 0, 0, 0, 0, 0,
     0, 0, 0, 0, 0, 0, 0, 0, 184, 0, 0, 0, 0, 0, 0, 0] =
   [[99, 111, 105, 110, 103, 101, 99, 107, 111, 95, 99, 117, 114, 114, 101, 110,
     116, 95, 112, 114, 105, 99, 101, 128, 0, 0, 0, 0, 0, 0, 0, 0,
     0, 0, 0, 0, 0, 0, 0, 0, 0, 0, 0, 0, 0, 0, 0, 0,
     0, 0, 0, 0, 0, 0, 0, 0, 184, 0, 0, 0, 0, 0, 0, 0]]"
  by (simp add: md5_blocks.simps)

lemma md5_decode_price1:
  "md5_decode
    [99, 111, 105, 110, 103, 101, 99, 107, 111, 95, 99, 117, 114, 114, 101, 110,
     116, 95, 112, 114, 105, 99, 101, 128, 0, 0, 0, 0, 0, 0, 0, 0,
     0, 0, 0, 0, 0, 0, 0, 0, 0, 0, 0, 0, 0, 0, 0, 0,
     0, 0, 0, 0, 0, 0, 0, 0, 184, 0, 0, 0, 0, 0, 0, 0] =
   [1852403555, 1801676135, 1969446767, 1852142194, 1919967092, 2154128233, 0, 0,
    0, 0, 0, 0, 0, 0, 184, 0]"
  by simp

lemma md5_round1_price1:
  "fold (md5_op md5_F
     [1852403555, 1801676135, 1969446767, 1852142194, 1919967092, 2154128233, 0, 0,
     0, 0, 0, 0, 0, 0, 184, 0])
     md5_round1 (1732584193, 4023233417, 2562383102, 271733878) =
   (2242124886, 4287993114, 1330111593, 1854659116)"
  by (simp add: md5_op_def md5_F_def md5_round1_def rotate_left_def)

lemma md5_round2_price1:
  "fold (md5_op md5_G
     [1852403555, 1801676135, 1969446767, 1852142194, 1919967092, 2154128233, 0, 0,
     0, 0, 0, 0, 0, 0, 184, 0])
     md5_round2 (2242124886, 4287993114, 1330111593, 1854659116) =
   (3482735198, 803033256, 3226594321, 3306018023)"
  by (simp add: md5_op_def md5_G_def md5_round2_def rotate_left_def)

lemma md5_round3_price1:
  "fold (md5_op md5_H
     [1852403555, 1801676135, 1969446767, 1852142194, 1919967092, 2154128233, 0, 0,
     0, 0, 0, 0, 0, 0, 184, 0])
     md5_round3 (3482735198, 803033256, 3226594321, 3306018023) =
   (2728627316, 114597045, 2030436909, 3223309919)"
  by (simp add: md5_op_def md5_H_def md5_round3_def rotate_left_def)

lemma md5_round4_price1:
  "fold (md5_op md5_I
     [1852403555, 1801676135, 1969446767, 1852142194, 1919967092, 2154128233, 0, 0,
     0, 0, 0, 0, 0, 0, 184, 0])
     md5_round4 (2728627316, 114597045, 2030436909, 3223309919) =
   (3543941335, 3038908226, 83533163, 2615018130)"
  by (simp add: md5_op_def md5_I_def md5_round4_def rotate_left_def)

lemma md5_transform_price1:
  "md5_transform (1732584193, 4023233417, 2562383102, 271733878)
    [99, 111, 105, 110, 103, 101, 99, 107, 111, 95, 99, 117, 114, 114, 101, 110,
     116, 95, 112, 114, 105, 99, 101, 128, 0, 0, 0, 0, 0, 0, 0, 0,
     0, 0, 0, 0, 0, 0, 0, 0, 0, 0, 0, 0, 0, 0, 0, 0,
     0, 0, 0, 0, 0, 0, 0, 0, 184, 0, 0, 0, 0, 0, 0, 0] =
   (981558232, 2767174347, 2645916265, 2886752008)"
  unfolding md5_transform_def md5_decode_price1 Let_def
  by (simp add: md5_round1_price1 md5_round2_price1 md5_round3_price1 md5_round4_price1)

lemma md5_digest_price:
  "md5_digest (map of_char ''coingecko_current_price'') =
    [216, 99, 129, 58, 203, 186, 239, 164, 105, 122, 181, 157, 8, 87, 16, 172]"
  unfolding md5_digest_def Let_def md5_pad_price md5_blocks_price
  by (simp add: md5_init_def md5_transform_price1 md5_encode_def)

lemma md5_hexdigest_price: "md5_hexdigest ''coingecko_current_price'' = ''d863813acbbaefa4697ab59d085710ac''"
  unfolding md5_hexdigest_def md5_digest_price
  by (simp add: hexdigest_def hex_digit_def)

lemma md5_pad_market:
  "md5_pad (map of_char ''coingecko_market_data'') =
    [99, 111, 105, 110, 103, 101, 99, 107, 111, 95, 109, 97, 114, 107, 101, 116,
     95, 100, 97, 116, 97, 128, 0, 0, 0, 0, 0, 0, 0, 0, 0, 0,
     0, 0, 0, 0, 0, 0, 0, 0, 0, 0, 0, 0, 0, 0, 0, 0,
     0, 0, 0, 0, 0, 0, 0, 0, 168, 0, 0, 0, 0, 0, 0, 0]"
  by (simp add: md5_pad_def replicate_numeral)

lemma md5_blocks_market:
  "md5_blocks
    [99, 111, 105, 110, 103, 101, 99, 107, 111, 95, 109, 97, 114, 107, 101, 116,
     95, 100, 97, 116, 97, 128, 0, 0, 0, 0, 0, 0, 0, 0, 0, 0,
     0, 0, 0, 0, 0, 0, 0, 0, 0, 0, 0, 0, 0, 0, 0, 0,
     0, 0, 0, 0, 0, 0, 0, 0, 168, 0, 0, 0, 0, 0, 0, 0] =
   [[99, 111, 105, 110, 103, 101, 99, 107, 111, 95, 109, 97, 114, 107, 101, 116,
     95, 100, 97, 116, 97, 128, 0, 0, 0, 0, 0, 0, 0, 0, 0, 0,
     0, 0, 0, 0, 0, 0, 0, 0, 0, 0, 0, 0, 0, 0, 0, 0,
     0, 0, 0, 0, 0, 0, 0, 0, 168, 0, 0, 0, 0, 0, 0, 0]]"
  by (simp add: md5_blocks.simps)

lemma md5_decode_market1:
  "md5_decode
    [99, 111, 105, 110, 103, 101, 99, 107, 111, 95, 109, 97, 114, 107, 101, 116,
     95, 100, 97, 116, 97, 128, 0, 0, 0, 0, 0, 0, 0, 0, 0, 0,
     0, 0, 0, 0, 0, 0, 0, 0, 0, 0, 0, 0, 0, 0, 0, 0,
     0, 0, 0, 0, 0, 0, 0, 0, 168, 0, 0, 0, 0, 0, 0, 0] =
   [1852403555, 1801676135, 1634557807, 1952803698, 1952539743, 32865, 0, 0,
    0, 0, 0, 0, 0, 0, 168, 0]"
  by simp

lemma md5_round1_market1:
  "fold (md5_op md5_F
     [1852403555, 1801676135, 1634557807, 1952803698, 1952539743, 32865, 0, 0,
     0, 0, 0, 0, 0, 0, 168, 0])
     md5_round1 (1732584193, 4023233417, 2562383102, 271733878) =
   (3171034136, 1620442167, 1939957093, 3484048424)"
  by (simp add: md5_op_def md5_F_def md5_round1_def rotate_left_def)

lemma md5_round2_market1:
  "fold (md5_op md5_G
     [1852403555, 1801676135, 1634557807, 1952803698, 1952539743, 32865, 0, 0,
     0, 0, 0, 0, 0, 0, 168, 0])
     md5_round2 (3171034136, 1620442167, 1939957093, 3484048424) =
   (887918809, 3344737556, 1191011383, 1941694835)"
  by (simp add: md5_op_def md5_G_def md5_round2_def rotate_left_def)

lemma md5_round3_market1:
  "fold (md5_op md5_H
     [1852403555, 1801676135, 1634557807, 1952803698, 1952539743, 32865, 0, 0,
     0, 0, 0, 0, 0, 0, 168, 0])
     md5_round3 (887918809, 3344737556, 1191011383, 1941694835) =
   (3984726207, 2780678015, 3712324425, 4190449107)"
  by (simp add: md5_op_def md5_H_def md5_round3_def rotate_left_def)

lemma md5_round4_market1:
  "fold (md5_op md5_I
     [1852403555, 1801676135, 1634557807, 1952803698, 1952539743, 32865, 0, 0,
     0, 0, 0, 0, 0, 0, 168, 0])
     md5_round4 (3984726207, 2780678015, 3712324425, 4190449107) =
   (2884294435, 837015483, 636768153, 1714724907)"
  by (simp add: md5_op_def md5_I_def md5_round4_def rotate_left_def)

lemma md5_transform_market1:
  "md5_transform (1732584193, 4023233417, 2562383102, 271733878)
    [99, 111, 105, 110, 103, 101, 99, 107, 111, 95, 109, 97, 114, 107, 101, 116,
     95, 100, 97, 116, 97, 128, 0, 0, 0, 0, 0, 0, 0, 0, 0, 0,
     0, 0, 0, 0, 0, 0, 0, 0, 0, 0, 0, 0, 0, 0, 0, 0,
     0, 0, 0, 0, 0, 0, 0, 0, 168, 0, 0, 0, 0, 0, 0, 0] =
   (321911332, 565281604, 3199151255, 1986458785)"
  unfolding md5_transform_def md5_decode_market1 Let_def
  by (simp add: md5_round1_market1 md5_round2_market1 md5_round3_market1 md5_round4_market1)

lemma md5_digest_market:
  "md5_digest (map of_char ''coingecko_market_data'') =
    [36, 250, 47, 19, 68, 131, 177, 33, 151, 44, 175, 190, 161, 244, 102, 118]"
  unfolding md5_digest_def Let_def md5_pad_market md5_blocks_market
  by (simp add: md5_init_def md5_transform_market1 md5_encode_def)

lemma md5_hexdigest_market: "md5_hexdigest ''coingecko_market_data'' = ''24fa2f134483b121972cafbea1f46676''"
  unfolding md5_hexdigest_def md5_digest_market
  by (simp add: hexdigest_def hex_digit_def)

section \<open>Isolation of the cache entries\<close>

text \<open>
  C8. \<open>set k1 v\<close> does not leave \<open>get k2\<close> unchanged for all distinct keys \<open>k1\<close> and
  \<open>k2\<close>. An entry is addressed by the MD5 digest of its key, and two distinct keys may
  have the same digest: the two keys \<open>collision_key_A\<close> and \<open>collision_key_B\<close> are distinct,
  \<open>get\<close> of the second misses in the empty cache, and after \<open>set\<close> of the first it returns
  the value stored for the first.
\<close>

theorem cache_isolation_counterexample:
  "collision_key_A \<noteq> collision_key_B \<and>
   fst (DataCache_get offline_world collision_key_B) = None \<and>
   fst (DataCache_get (DataCache_set offline_world collision_key_A example_payload)
          collision_key_B) = Some example_payload"
proof -
  have p: "get_cache_path collision_key_A = get_cache_path collision_key_B"
    by (simp add: get_cache_path_def md5_collision)
  have f: "\<not> io_fault offline_world (get_cache_path collision_key_B)"
    and n: "now offline_world = 0"
    and e: "files offline_world (get_cache_path collision_key_B) = None"
    by (simp_all add: offline_world_def)
  have 1: "fst (DataCache_get offline_world collision_key_B) = None"
    by (simp add: fst_DataCache_get e)
  have 2: "fst (DataCache_get (DataCache_set offline_world collision_key_A example_payload)
          collision_key_B) = Some example_payload"
    using f by (simp add: fst_DataCache_get files_DataCache_set p n CACHE_EXPIRY_MINUTES_def)
  show ?thesis using collision_keys_differ 1 2 by simp
qed

text \<open>
  C8, for keys with distinct cache paths (distinct MD5 digests): \<open>set k1 v\<close> leaves the
  result of \<open>get k2\<close> and the file of \<open>k2\<close> unchanged.
\<close>

theorem cache_isolation_distinct_paths:
  assumes "get_cache_path k1 \<noteq> get_cache_path k2"
  shows "fst (DataCache_get (DataCache_set w k1 v) k2) = fst (DataCache_get w k2) \<and>
         files (DataCache_set w k1 v) (get_cache_path k2) = files w (get_cache_path k2)"
  using assms by (simp add: fst_DataCache_get files_DataCache_set split: option.split cache_file.split)

theorem cache_isolation_distinct_paths_witness:
  "get_cache_path ''coingecko_current_price'' \<noteq> get_cache_path ''coingecko_market_data'' \<and>
   fst (DataCache_get (DataCache_set offline_world ''coingecko_current_price'' example_payload)
          ''coingecko_market_data'') = None"
proof -
  have h: "get_cache_path ''coingecko_current_price'' \<noteq> get_cache_path ''coingecko_market_data''"
    by (simp add: get_cache_path_def md5_hexdigest_price md5_hexdigest_market)
  have "fst (DataCache_get offline_world ''coingecko_market_data'') = None"
    by (simp add: fst_DataCache_get offline_world_def)
  then show ?thesis
    using h cache_isolation_distinct_paths[OF h, of offline_world example_payload]
    by simp
qed

section \<open>The historical series\<close>

lemma snd_DataCache_get:
  "snd (DataCache_get w key) = w\<lparr>logged := logged (snd (DataCache_get w key))\<rparr>"
  by (simp add: DataCache_get_def Let_def emit_def split: option.split cache_file.split)

lemma DataCache_get_world: "\<exists>l. snd (DataCache_get w key) = w\<lparr>logged := l\<rparr>"
  using snd_DataCache_get by blast


lemma io_fault_DataCache_get [simp]: "io_fault (snd (DataCache_get w key)) = io_fault w"
  by (subst snd_DataCache_get) simp

lemma now_DataCache_get [simp]: "now (snd (DataCache_get w key)) = now w"
  by (subst snd_DataCache_get) simp

lemma sent_DataCache_get [simp]: "sent (snd (DataCache_get w key)) = sent w"
  by (subst snd_DataCache_get) simp

lemma upstream_chart_DataCache_get [simp]:
  "upstream_chart (snd (DataCache_get w key)) = upstream_chart w"
  by (subst snd_DataCache_get) simp

lemma sent_emit [simp]: "sent (emit level msg w) = sent w"
  by (simp add: emit_def)

lemma sent_DataCache_set [simp]: "sent (DataCache_set w key data) = sent w"
  by (simp add: DataCache_set_def Let_def emit_def)

lemma files_DataCache_set_other:
  "p \<noteq> get_cache_path key \<Longrightarrow> files (DataCache_set w key data) p = files w p"
  by (simp add: files_DataCache_set)

lemma str_int_365: "str_int 365 = ''365''"
  by (simp add: str_int_def str_nat.simps digit_char_def)

text \<open>
  C9. \<open>get_historical_data\<close> works with \<open>d = min days 365\<close>: \<open>d\<close> is at most 365 and is
  \<open>days\<close> itself when \<open>days\<close> is at most 365; the call is the call with \<open>d\<close>; the cache key
  is \<open>coingecko_historical_<d>d\<close>; on a cache miss exactly one request is sent, with the
  parameter \<open>days = d\<close>, and the result records \<open>d\<close> days; no cache file other than the
  one of that key is written.
\<close>

theorem historical_days_clamped:
  "let d = min days 365;
       key = ''coingecko_historical_'' @ str_int d @ ''d'';
       req = Request (COINGECKO_BASE_URL @ ''/coins/bitcoin/market_chart'')
               [(''vs_currency'', ''usd''), (''days'', str_int d), (''interval'', ''daily'')];
       r = fst (CoinGeckoFetcher_get_historical_data w days);
       w' = snd (CoinGeckoFetcher_get_historical_data w days)
   in d \<le> 365 \<and> (days \<le> 365 \<longrightarrow> d = days) \<and>
      CoinGeckoFetcher_get_historical_data w days = CoinGeckoFetcher_get_historical_data w d \<and>
      (case fst (DataCache_get w key) of
         Some c \<Rightarrow> r = Some c \<and> sent w' = sent w
       | None \<Rightarrow>
           sent w' = sent w @ [req] \<and>
           (case upstream_chart w req of
              None \<Rightarrow> r = None
            | Some body \<Rightarrow>
                r = Some (Historical ''coingecko'' (utcnow w) d
                            (case body_prices body of None \<Rightarrow> [] | Some s \<Rightarrow> s)
                            (case body_market_caps body of None \<Rightarrow> [] | Some s \<Rightarrow> s)
                            (case body_volumes body of None \<Rightarrow> [] | Some s \<Rightarrow> s)))) \<and>
      (\<forall>p. p \<noteq> get_cache_path key \<longrightarrow> files w' p = files w p)"
proof -
  define d where "d = min days 365"
  define key where "key = ''coingecko_historical_'' @ str_int d @ ''d''"
  define req where "req = Request (COINGECKO_BASE_URL @ ''/coins/bitcoin/market_chart'')
               [(''vs_currency'', ''usd''), (''days'', str_int d), (''interval'', ''daily'')]"
  define w1 where "w1 = snd (DataCache_get w key)"
  obtain l where w1: "w1 = w\<lparr>logged := l\<rparr>"
    using DataCache_get_world[of w key] by (auto simp: w1_def)
  have dd: "min d 365 = d" by (simp add: d_def)
  have eq: "CoinGeckoFetcher_get_historical_data w days = CoinGeckoFetcher_get_historical_data w d"
    by (simp add: CoinGeckoFetcher_get_historical_data_def dd d_def[symmetric])
  have unf: "CoinGeckoFetcher_get_historical_data w days =
      (case fst (DataCache_get w key) of
         Some c \<Rightarrow> (Some c, w1)
       | None \<Rightarrow>
          (case upstream_chart w1 req of
             None \<Rightarrow> (None, emit ERROR ''Error fetching historical data from CoinGecko''
                         (w1\<lparr>sent := sent w1 @ [req]\<rparr>))
           | Some body \<Rightarrow>
               (Some (Historical ''coingecko'' (utcnow w1) d
                        (case body_prices body of None \<Rightarrow> [] | Some s \<Rightarrow> s)
                        (case body_market_caps body of None \<Rightarrow> [] | Some s \<Rightarrow> s)
                        (case body_volumes body of None \<Rightarrow> [] | Some s \<Rightarrow> s)),
                emit INFO (''Successfully fetched '' @ str_int d @
                           '' days of historical data from CoinGecko'')
                  (DataCache_set (w1\<lparr>sent := sent w1 @ [req]\<rparr>) key
                     (Historical ''coingecko'' (utcnow w1) d
                        (case body_prices body of None \<Rightarrow> [] | Some s \<Rightarrow> s)
                        (case body_market_caps body of None \<Rightarrow> [] | Some s \<Rightarrow> s)
                        (case body_volumes body of None \<Rightarrow> [] | Some s \<Rightarrow> s))))))"
    unfolding CoinGeckoFetcher_get_historical_data_def Let_def d_def[symmetric] key_def[symmetric]
      req_def[symmetric] session_get_chart_def w1_def
    by (cases "DataCache_get w key") (simp split: option.split)
  have 1: "d \<le> 365" "days \<le> 365 \<longrightarrow> d = days" by (simp_all add: d_def)
  have 2: "(case fst (DataCache_get w key) of
         Some c \<Rightarrow> fst (CoinGeckoFetcher_get_historical_data w days) = Some c \<and>
                   sent (snd (CoinGeckoFetcher_get_historical_data w days)) = sent w
       | None \<Rightarrow>
           sent (snd (CoinGeckoFetcher_get_historical_data w days)) = sent w @ [req] \<and>
           (case upstream_chart w req of
              None \<Rightarrow> fst (CoinGeckoFetcher_get_historical_data w days) = None
            | Some body \<Rightarrow>
                fst (CoinGeckoFetcher_get_historical_data w days) =
                  Some (Historical ''coingecko'' (utcnow w) d
                            (case body_prices body of None \<Rightarrow> [] | Some s \<Rightarrow> s)
                            (case body_market_caps body of None \<Rightarrow> [] | Some s \<Rightarrow> s)
                            (case body_volumes body of None \<Rightarrow> [] | Some s \<Rightarrow> s))))"
    unfolding unf by (simp add: w1 split: option.split)
  have 3: "files (snd (CoinGeckoFetcher_get_historical_data w days)) p = files w p"
    if "p \<noteq> get_cache_path key" for p
    unfolding unf using that by (simp add: w1 files_DataCache_set split: option.split)
  have 4: "\<forall>p. p \<noteq> get_cache_path key \<longrightarrow>
             files (snd (CoinGeckoFetcher_get_historical_data w days)) p = files w p"
    using 3 by simp
  show ?thesis
    unfolding Let_def d_def[symmetric] key_def[symmetric] req_def[symmetric]
    by (rule conjI[OF 1(1) conjI[OF 1(2) conjI[OF eq conjI[OF 2 4]]]])
qed

theorem historical_days_clamped_witness:
  "fst (CoinGeckoFetcher_get_historical_data
          (offline_world\<lparr>upstream_chart :=
             (\<lambda>r. Some \<lparr>body_prices = Some [(0, 50000)], body_market_caps = None,
                         body_volumes = None\<rparr>)\<rparr>) 400) =
     Some (Historical ''coingecko'' ''1970-01-01T00:00:00'' 365 [(0, 50000)] [] []) \<and>
   sent (snd (CoinGeckoFetcher_get_historical_data
          (offline_world\<lparr>upstream_chart :=
             (\<lambda>r. Some \<lparr>body_prices = Some [(0, 50000)], body_market_caps = None,
                         body_volumes = None\<rparr>)\<rparr>) 400)) =
     [Request (COINGECKO_BASE_URL @ ''/coins/bitcoin/market_chart'')
        [(''vs_currency'', ''usd''), (''days'', ''365''), (''interval'', ''daily'')]]"
proof -
  define w where "w = offline_world\<lparr>upstream_chart :=
             (\<lambda>r. Some \<lparr>body_prices = Some [(0, 50000)], body_market_caps = None,
                         body_volumes = None\<rparr>)\<rparr>"
  have m: "fst (DataCache_get w key) = None" for key
    by (simp add: fst_DataCache_get w_def offline_world_def)
  have s: "sent w = []" and u: "utcnow w = ''1970-01-01T00:00:00''"
    and c: "upstream_chart w = (\<lambda>r. Some \<lparr>body_prices = Some [(0, 50000)], body_market_caps = None,
                         body_volumes = None\<rparr>)"
    by (simp_all add: w_def offline_world_def)
  have d: "min (400::int) 365 = 365" by simp
  show ?thesis
    unfolding w_def[symmetric]
    using historical_days_clamped[of 400 w]
    unfolding Let_def d str_int_365 m option.case s u c
    by (elim conjE) simp
qed

section \<open>The cache paths of the OHLCV keys\<close>

























































































































section \<open>OHLCV through the facade\<close>











end
